theory Spec2Isabelle
  imports Main "HOL-Library.Multiset" "HOL-Library.Sublist"
begin

section \<open>Persisted schema (shared schema: tables sessions and messages)\<close>

text \<open>
  The two tables of the schema file. Text columns are strings, nullable text columns
  are options, timestamps are counted in ticks of the database clock. Field names carry
  a prefix because both tables have an id column.
\<close>

record session =
  s_id :: string
  s_title :: string
  s_createdAt :: nat

record message =
  m_id :: string
  m_sessionId :: string
  m_role :: string
  m_content :: string
  m_type :: string
  m_imageUrl :: "string option"
  m_imageData :: "string option"
  m_mode :: "string option"
  m_scenarioId :: "string option"
  m_timestamp :: nat

text \<open>
  \<open>InsertMessage\<close>: the picked columns of the insert schema; id and timestamp are
  filled in by the column defaults (\<open>gen_random_uuid()\<close>, \<open>now()\<close>).
\<close>

record insertMessage =
  im_sessionId :: string
  im_role :: string
  im_content :: string
  im_type :: string
  im_imageUrl :: "string option"
  im_imageData :: "string option"
  im_mode :: "string option"
  im_scenarioId :: "string option"

text \<open>
  The messages table is stored as a heap of slots, and a scan reads the live rows in
  slot order. A deleted row leaves a dead slot; vacuuming turns dead slots into free
  ones; an insert takes the first free slot and extends the heap when there is none.
  So the scan order is the insertion order only as long as no freed slot has been
  reused.
\<close>

datatype 'a slot = Live 'a | Dead | Free

fun live :: "'a slot list \<Rightarrow> 'a list" where
  "live [] = []"
| "live (Live x # ss) = x # live ss"
| "live (Dead # ss) = live ss"
| "live (Free # ss) = live ss"

fun place :: "'a \<Rightarrow> 'a slot list \<Rightarrow> 'a slot list" where
  "place x [] = [Live x]"
| "place x (Free # ss) = Live x # ss"
| "place x (Live y # ss) = Live y # place x ss"
| "place x (Dead # ss) = Dead # place x ss"

definition expire :: "('a \<Rightarrow> bool) \<Rightarrow> 'a slot list \<Rightarrow> 'a slot list" where
  "expire p ss =
     map (\<lambda>s. case s of Live x \<Rightarrow> if p x then Dead else Live x | Dead \<Rightarrow> Dead
                 | Free \<Rightarrow> Free) ss"

definition vacuum :: "'a slot list \<Rightarrow> 'a slot list" where
  "vacuum ss = map (\<lambda>s. case s of Live x \<Rightarrow> Live x | Dead \<Rightarrow> Free | Free \<Rightarrow> Free) ss"

text \<open>
  The database: whether a query reaches a provisioned database at all, the rows of the
  sessions table, and the heap of the messages table. The session rows are looked up by
  their key and listed through \<open>ORDER BY\<close> only, so their list stands for the table
  in any scan order.
\<close>

record database =
  online :: bool
  tbl_sessions :: "session list"
  heap_messages :: "message slot list"

text \<open>The rows of the messages table as a scan reads them.\<close>

definition tbl_messages :: "database \<Rightarrow> message list" where
  "tbl_messages db = live (heap_messages db)"

text \<open>What the driver throws: the awaited query rejects with one of these.\<close>

datatype db_error = ConnectionError | UniqueViolation | ForeignKeyViolation

text \<open>
  \<open>ORDER BY\<close> is carried out by the database engine. The queries of the storage class
  name one sort key each and nothing else, so the engine is a parameter: any function
  that returns the rows it is given, sorted by that key.
\<close>

record engine =
  orderSessions :: "session list \<Rightarrow> session list"
  orderMessages :: "message list \<Rightarrow> message list"

definition order_by_timestamp :: "(message list \<Rightarrow> message list) \<Rightarrow> bool" where
  "order_by_timestamp ob \<longleftrightarrow>
     (\<forall>rows. mset (ob rows) = mset rows \<and> sorted (map m_timestamp (ob rows)))"

definition order_by_desc_createdAt :: "(session list \<Rightarrow> session list) \<Rightarrow> bool" where
  "order_by_desc_createdAt ob \<longleftrightarrow>
     (\<forall>rows. mset (ob rows) = mset rows \<and> sorted (rev (map s_createdAt (ob rows))))"

definition engine_ok :: "engine \<Rightarrow> bool" where
  "engine_ok eng \<longleftrightarrow>
     order_by_desc_createdAt (orderSessions eng) \<and> order_by_timestamp (orderMessages eng)"

text \<open>The engine that keeps rows with equal keys in the order in which the scan reads them.\<close>

definition stableEngine :: engine where
  "stableEngine =
     \<lparr>orderSessions = (\<lambda>rows. rev (sort_key s_createdAt (rev rows))),
      orderMessages = sort_key m_timestamp\<rparr>"

section \<open>Storage class (server/storage.ts, DatabaseStorage)\<close>

text \<open>
  Every method awaits one query. A query on a database that is not reachable rejects;
  an insert rejects on a duplicate primary key and on a foreign key without its row;
  a delete of a session row takes the messages that reference it along
  (\<open>onDelete: "cascade"\<close>). Fresh ids and the clock are arguments.
\<close>

definition createSession ::
  "database \<Rightarrow> string \<Rightarrow> nat \<Rightarrow> string \<Rightarrow> db_error + (session \<times> database)" where
  "createSession db newId now title =
     (if \<not> online db then Inl ConnectionError
      else if newId \<in> set (map s_id (tbl_sessions db)) then Inl UniqueViolation
      else let row = \<lparr>s_id = newId, s_title = title, s_createdAt = now\<rparr>
           in Inr (row, db\<lparr>tbl_sessions := tbl_sessions db @ [row]\<rparr>))"

definition getSession :: "database \<Rightarrow> string \<Rightarrow> db_error + session option" where
  "getSession db ident =
     (if \<not> online db then Inl ConnectionError
      else Inr (find (\<lambda>s. s_id s = ident) (tbl_sessions db)))"

definition getAllSessions :: "engine \<Rightarrow> database \<Rightarrow> db_error + session list" where
  "getAllSessions eng db =
     (if \<not> online db then Inl ConnectionError
      else Inr (orderSessions eng (tbl_sessions db)))"

definition deleteSession :: "database \<Rightarrow> string \<Rightarrow> db_error + database" where
  "deleteSession db ident =
     (if \<not> online db then Inl ConnectionError
      else let gone = filter (\<lambda>s. s_id s = ident) (tbl_sessions db)
           in Inr (db\<lparr>tbl_sessions := filter (\<lambda>s. s_id s \<noteq> ident) (tbl_sessions db),
                       heap_messages := expire (\<lambda>m. m_sessionId m \<in> set (map s_id gone))
                                          (heap_messages db)\<rparr>))"

definition updateSession ::
  "database \<Rightarrow> string \<Rightarrow> string \<Rightarrow> db_error + (session option \<times> database)" where
  "updateSession db ident title =
     (if \<not> online db then Inl ConnectionError
      else let rows = map (\<lambda>s. if s_id s = ident then s\<lparr>s_title := title\<rparr> else s)
                        (tbl_sessions db)
           in Inr (find (\<lambda>s. s_id s = ident) rows, db\<lparr>tbl_sessions := rows\<rparr>))"

definition createMessage ::
  "database \<Rightarrow> string \<Rightarrow> nat \<Rightarrow> insertMessage \<Rightarrow> db_error + (message \<times> database)" where
  "createMessage db newId now data =
     (if \<not> online db then Inl ConnectionError
      else if newId \<in> set (map m_id (tbl_messages db)) then Inl UniqueViolation
      else if im_sessionId data \<notin> set (map s_id (tbl_sessions db))
        then Inl ForeignKeyViolation
      else let row = \<lparr>m_id = newId, m_sessionId = im_sessionId data,
                        m_role = im_role data, m_content = im_content data,
                        m_type = im_type data, m_imageUrl = im_imageUrl data,
                        m_imageData = im_imageData data, m_mode = im_mode data,
                        m_scenarioId = im_scenarioId data, m_timestamp = now\<rparr>
           in Inr (row, db\<lparr>heap_messages := place row (heap_messages db)\<rparr>))"

definition getMessagesBySession ::
  "engine \<Rightarrow> database \<Rightarrow> string \<Rightarrow> db_error + message list" where
  "getMessagesBySession eng db sessionId =
     (if \<not> online db then Inl ConnectionError
      else Inr (orderMessages eng
                  (filter (\<lambda>m. m_sessionId m = sessionId) (tbl_messages db))))"

definition deleteMessage :: "database \<Rightarrow> string \<Rightarrow> db_error + database" where
  "deleteMessage db ident =
     (if \<not> online db then Inl ConnectionError
      else Inr (db\<lparr>heap_messages := expire (\<lambda>m. m_id m = ident) (heap_messages db)\<rparr>))"

definition deleteMessagesBySession :: "database \<Rightarrow> string \<Rightarrow> db_error + database" where
  "deleteMessagesBySession db sessionId =
     (if \<not> online db then Inl ConnectionError
      else Inr (db\<lparr>heap_messages :=
                      expire (\<lambda>m. m_sessionId m = sessionId) (heap_messages db)\<rparr>))"

text \<open>
  Referential integrity of a database state, and the commands that change one: the
  methods of the storage class, the database going away or coming back, and the
  database vacuuming the messages table.
\<close>

definition fk_ok :: "database \<Rightarrow> bool" where
  "fk_ok db \<longleftrightarrow> (\<forall>m \<in> set (tbl_messages db). m_sessionId m \<in> set (map s_id (tbl_sessions db)))"

datatype command =
    CreateSession string nat string
  | DeleteSession string
  | UpdateSession string string
  | CreateMessage string nat insertMessage
  | DeleteMessage string
  | DeleteMessagesBySession string
  | SetOnline bool
  | Vacuum

text \<open>A rejected query leaves the tables as they were.\<close>

definition exec :: "database \<Rightarrow> command \<Rightarrow> database" where
  "exec db c =
     (case c of
        CreateSession newId now title \<Rightarrow>
          (case createSession db newId now title of Inl e \<Rightarrow> db | Inr (row, db') \<Rightarrow> db')
      | DeleteSession ident \<Rightarrow>
          (case deleteSession db ident of Inl e \<Rightarrow> db | Inr db' \<Rightarrow> db')
      | UpdateSession ident title \<Rightarrow>
          (case updateSession db ident title of Inl e \<Rightarrow> db | Inr (row, db') \<Rightarrow> db')
      | CreateMessage newId now data \<Rightarrow>
          (case createMessage db newId now data of Inl e \<Rightarrow> db | Inr (row, db') \<Rightarrow> db')
      | DeleteMessage ident \<Rightarrow>
          (case deleteMessage db ident of Inl e \<Rightarrow> db | Inr db' \<Rightarrow> db')
      | DeleteMessagesBySession sessionId \<Rightarrow>
          (case deleteMessagesBySession db sessionId of Inl e \<Rightarrow> db | Inr db' \<Rightarrow> db')
      | SetOnline b \<Rightarrow> db\<lparr>online := b\<rparr>
      | Vacuum \<Rightarrow> db\<lparr>heap_messages := vacuum (heap_messages db)\<rparr>)"

definition emptyDatabase :: database where
  "emptyDatabase = \<lparr>online = True, tbl_sessions = [], heap_messages = []\<rparr>"

definition run :: "command list \<Rightarrow> database" where
  "run cs = foldl exec emptyDatabase cs"

section \<open>HTTP routes (server/routes.ts and its variant with the analysis endpoint)\<close>

text \<open>
  A request body field that the handlers read as text is \<open>None\<close> when it is absent
  (or \<open>null\<close>) and \<open>Some s\<close> when it is the string \<open>s\<close>; the message type declares
  these fields as strings. JavaScript's \<open>!x\<close> holds for an absent field and for the empty
  string, and \<open>x || null\<close> turns both into \<open>null\<close>.
\<close>

definition falsy :: "string option \<Rightarrow> bool" where
  "falsy x = (case x of None \<Rightarrow> True | Some s \<Rightarrow> s = [])"

definition orNull :: "string option \<Rightarrow> string option" where
  "orNull x = (if falsy x then None else x)"

record messageBody =
  b_role :: "string option"
  b_content :: "string option"
  b_type :: "string option"
  b_imageUrl :: "string option"
  b_imageData :: "string option"
  b_mode :: "string option"
  b_scenarioId :: "string option"

record uploadedFile =
  f_mimetype :: string
  f_base64 :: string
  f_originalname :: string

datatype payload =
    SessionList "session list"
  | SessionBody session
  | SuccessTrue
  | MessageList "message list"
  | MessageBody message
  | UploadBody string string
  | AnalysisBody string
  | ErrorBody string
  | ErrorPage

record response =
  status :: nat
  body :: payload

text \<open>
  \<open>res.json(x)\<close> answers 200; \<open>res.status(n).json({error})\<close> answers \<open>n\<close>. What no
  handler answers is answered by Express itself with a page of its own
  (\<open>ErrorPage\<close>): 500 for an error passed on by a middleware, 404 for a request that no
  registered route matches.
\<close>

definition json :: "payload \<Rightarrow> response" where
  "json p = \<lparr>status = 200, body = p\<rparr>"

definition status_json :: "nat \<Rightarrow> string \<Rightarrow> response" where
  "status_json n msg = \<lparr>status = n, body = ErrorBody msg\<rparr>"

definition express_page :: "nat \<Rightarrow> response" where
  "express_page n = \<lparr>status = n, body = ErrorPage\<rparr>"

text \<open>
  Every handler is \<open>try { ... } catch (error) { ... }\<close>. The \<open>try\<close> block either
  throws or answers; what is thrown is a rejected query or a failed call of the vision
  model. The upload route runs the multer middleware \<open>upload.single("file")\<close> before
  its handler, outside the \<open>try\<close> block; that middleware fails on a form it cannot
  read and on a file under another field name.
\<close>

datatype api_error = ApiError

datatype multer_error = MalformedForm | UnexpectedField

datatype exn = DbError db_error | ApiFailure api_error | UploadFailure multer_error

definition try_catch :: "exn + 'a \<Rightarrow> 'a \<Rightarrow> 'a" where
  "try_catch block handler = (case block of Inl e \<Rightarrow> handler | Inr r \<Rightarrow> r)"

definition await :: "db_error + 'a \<Rightarrow> ('a \<Rightarrow> exn + 'b) \<Rightarrow> exn + 'b" where
  "await query k = (case query of Inl e \<Rightarrow> Inl (DbError e) | Inr v \<Rightarrow> k v)"

text \<open>\<open>GET /api/sessions\<close>: the \<open>try\<close> block, shared by both variants.\<close>

definition GET_sessions_try :: "engine \<Rightarrow> database \<Rightarrow> exn + response" where
  "GET_sessions_try eng db =
     await (getAllSessions eng db) (\<lambda>allSessions. Inr (json (SessionList allSessions)))"

text \<open>The handler as server/routes.ts has it.\<close>

definition GET_sessions :: "engine \<Rightarrow> database \<Rightarrow> response" where
  "GET_sessions eng db =
     try_catch (GET_sessions_try eng db) (status_json 500 ''Failed to fetch sessions'')"

text \<open>
  The handler as the variant with the analysis endpoint has it: the catch block answers
  with an empty array ("table doesn't exist yet, migrations pending").
\<close>

definition GET_sessions_degrading :: "engine \<Rightarrow> database \<Rightarrow> response" where
  "GET_sessions_degrading eng db =
     try_catch (GET_sessions_try eng db) (json (SessionList []))"

definition POST_sessions_try ::
  "database \<Rightarrow> string \<Rightarrow> nat \<Rightarrow> string option \<Rightarrow> exn + (response \<times> database)" where
  "POST_sessions_try db newId now title =
     (if falsy title then Inr (status_json 400 ''Title is required'', db)
      else await (createSession db newId now (the title))
             (\<lambda>(newSession, db'). Inr (json (SessionBody newSession), db')))"

definition POST_sessions ::
  "database \<Rightarrow> string \<Rightarrow> nat \<Rightarrow> string option \<Rightarrow> response \<times> database" where
  "POST_sessions db newId now title =
     try_catch (POST_sessions_try db newId now title)
       (status_json 500 ''Failed to create session'', db)"

definition GET_session_try :: "database \<Rightarrow> string \<Rightarrow> exn + response" where
  "GET_session_try db ident =
     await (getSession db ident)
       (\<lambda>found. case found of
            None \<Rightarrow> Inr (status_json 404 ''Session not found'')
          | Some s \<Rightarrow> Inr (json (SessionBody s)))"

definition GET_session :: "database \<Rightarrow> string \<Rightarrow> response" where
  "GET_session db ident =
     try_catch (GET_session_try db ident) (status_json 500 ''Failed to fetch session'')"

definition DELETE_session_try :: "database \<Rightarrow> string \<Rightarrow> exn + (response \<times> database)" where
  "DELETE_session_try db ident =
     await (deleteSession db ident) (\<lambda>db'. Inr (json SuccessTrue, db'))"

definition DELETE_session :: "database \<Rightarrow> string \<Rightarrow> response \<times> database" where
  "DELETE_session db ident =
     try_catch (DELETE_session_try db ident)
       (status_json 500 ''Failed to delete session'', db)"

definition GET_messages_try :: "engine \<Rightarrow> database \<Rightarrow> string \<Rightarrow> exn + response" where
  "GET_messages_try eng db sessionId =
     await (getMessagesBySession eng db sessionId) (\<lambda>msgs. Inr (json (MessageList msgs)))"

definition GET_messages :: "engine \<Rightarrow> database \<Rightarrow> string \<Rightarrow> response" where
  "GET_messages eng db sessionId =
     try_catch (GET_messages_try eng db sessionId)
       (status_json 500 ''Failed to fetch messages'')"

definition POST_messages_try ::
  "database \<Rightarrow> string \<Rightarrow> nat \<Rightarrow> string \<Rightarrow> messageBody \<Rightarrow> exn + (response \<times> database)" where
  "POST_messages_try db newId now sessionId b =
     (if falsy (b_role b) \<or> falsy (b_content b) \<or> falsy (b_type b)
        then Inr (status_json 400 ''Missing required fields'', db)
      else await (createMessage db newId now
                    \<lparr>im_sessionId = sessionId,
                     im_role = the (b_role b),
                     im_content = the (b_content b),
                     im_type = the (b_type b),
                     im_imageUrl = orNull (b_imageUrl b),
                     im_imageData = orNull (b_imageData b),
                     im_mode = orNull (b_mode b),
                     im_scenarioId = orNull (b_scenarioId b)\<rparr>)
             (\<lambda>(newMessage, db'). Inr (json (MessageBody newMessage), db')))"

definition POST_messages ::
  "database \<Rightarrow> string \<Rightarrow> nat \<Rightarrow> string \<Rightarrow> messageBody \<Rightarrow> response \<times> database" where
  "POST_messages db newId now sessionId b =
     try_catch (POST_messages_try db newId now sessionId b)
       (status_json 500 ''Failed to create message'', db)"

text \<open>
  \<open>POST /api/upload\<close>. The request is given by what the middleware makes of it: an
  error, or \<open>req.file\<close> (absent when the form has no file field), the buffer of the file
  by its base64 text. An error of the middleware never reaches the handler: Express
  answers it with status 500 and its own page. Nothing in the \<open>try\<close> block calls out.
\<close>

definition POST_upload_try :: "uploadedFile option \<Rightarrow> exn + response" where
  "POST_upload_try file =
     (case file of
        None \<Rightarrow> Inr (status_json 400 ''No file uploaded'')
      | Some f \<Rightarrow>
          Inr (json (UploadBody (''data:'' @ f_mimetype f @ '';base64,'' @ f_base64 f)
                       (f_originalname f))))"

definition POST_upload :: "multer_error + uploadedFile option \<Rightarrow> response" where
  "POST_upload parsed =
     (case parsed of
        Inl e \<Rightarrow> express_page 500
      | Inr file \<Rightarrow>
          try_catch (POST_upload_try file) (status_json 500 ''Failed to upload file''))"

text \<open>
  \<open>POST /api/analyze\<close> and \<open>analyzeL2Screenshot\<close>. The vision model is outside the
  program: its answer to the one call is an argument, \<open>Inl\<close> when the call throws and
  otherwise the content of the first choice, if there is one. The image and the mode
  only shape the request that is sent to the model. The function logs and rethrows.
\<close>

definition analyzeL2Screenshot :: "api_error + string option \<Rightarrow> exn + string" where
  "analyzeL2Screenshot completion =
     (case completion of
        Inl e \<Rightarrow> Inl (ApiFailure e)
      | Inr content \<Rightarrow>
          Inr (if falsy content then ''Unable to analyze screenshot'' else the content))"

definition startsWith :: "string \<Rightarrow> string \<Rightarrow> bool" where
  "startsWith s p = (take (length p) s = p)"

definition POST_analyze_try :: "string option \<Rightarrow> api_error + string option \<Rightarrow> exn + response" where
  "POST_analyze_try imageData completion =
     (if falsy imageData \<or> \<not> startsWith (the imageData) ''data:image''
        then Inr (status_json 400 ''Valid image data required'')
      else case analyzeL2Screenshot completion of
             Inl e \<Rightarrow> Inl e
           | Inr analysis \<Rightarrow> Inr (json (AnalysisBody analysis)))"

definition POST_analyze :: "string option \<Rightarrow> api_error + string option \<Rightarrow> response" where
  "POST_analyze imageData completion =
     try_catch (POST_analyze_try imageData completion)
       (status_json 500 ''Failed to analyze screenshot'')"

text \<open>
  The whole request boundary: one request and what the outside world does during it
  (fresh id, clock, the vision model's answer) give one response and the database after
  it. The flag chooses the route file: with the flag the file that has the analysis
  endpoint and the degrading \<open>GET /api/sessions\<close>, without it server/routes.ts, which
  registers no \<open>/api/analyze\<close>, so that Express answers such a request with 404.
\<close>

datatype request =
    GetSessions
  | PostSessions "string option"
  | GetSession string
  | DeleteSessionReq string
  | GetMessages string
  | PostMessages string messageBody
  | PostUpload "multer_error + uploadedFile option"
  | PostAnalyze "string option"

record outside =
  o_newId :: string
  o_now :: nat
  o_completion :: "api_error + string option"

definition handle ::
  "bool \<Rightarrow> engine \<Rightarrow> outside \<Rightarrow> database \<Rightarrow> request \<Rightarrow> response \<times> database" where
  "handle degrading eng out db req =
     (case req of
        GetSessions \<Rightarrow>
          ((if degrading then GET_sessions_degrading eng db else GET_sessions eng db), db)
      | PostSessions title \<Rightarrow> POST_sessions db (o_newId out) (o_now out) title
      | GetSession ident \<Rightarrow> (GET_session db ident, db)
      | DeleteSessionReq ident \<Rightarrow> DELETE_session db ident
      | GetMessages sessionId \<Rightarrow> (GET_messages eng db sessionId, db)
      | PostMessages sessionId b \<Rightarrow> POST_messages db (o_newId out) (o_now out) sessionId b
      | PostUpload parsed \<Rightarrow> (POST_upload parsed, db)
      | PostAnalyze imageData \<Rightarrow>
          ((if degrading then POST_analyze imageData (o_completion out) else express_page 404),
           db))"

text \<open>
  What is thrown while the request is handled, if anything: by the \<open>try\<close> block of its
  handler or, for an upload, by the middleware before it. A request that no route
  matches runs no code of the file.
\<close>

definition caught :: "exn + 'a \<Rightarrow> exn option" where
  "caught block = (case block of Inl e \<Rightarrow> Some e | Inr r \<Rightarrow> None)"


section \<open>Strings as the browser has them\<close>

text \<open>
  A string is a list of code units; the model covers the units up to \<open>0xFF\<close> (ASCII
  and Latin-1). \<open>trim\<close> strips white space at both ends, \<open>toLowerCase\<close> maps the
  capitals of that range, \<open>includes\<close> looks for a contiguous occurrence, and
  \<open>toString\<close> writes a number in decimal.
\<close>

definition isWhiteSpace :: "char \<Rightarrow> bool" where
  "isWhiteSpace c \<longleftrightarrow>
     c \<in> set [CHR 0x09, CHR 0x0A, CHR 0x0B, CHR 0x0C, CHR 0x0D, CHR 0x20, CHR 0xA0]"

definition trim :: "string \<Rightarrow> string" where
  "trim s = rev (dropWhile isWhiteSpace (rev (dropWhile isWhiteSpace s)))"

definition upperCaseLetters :: string where
  "upperCaseLetters =
     ''ABCDEFGHIJKLMNOPQRSTUVWXYZ'' @
     [CHR 0xC0, CHR 0xC1, CHR 0xC2, CHR 0xC3, CHR 0xC4, CHR 0xC5, CHR 0xC6, CHR 0xC7,
      CHR 0xC8, CHR 0xC9, CHR 0xCA, CHR 0xCB, CHR 0xCC, CHR 0xCD, CHR 0xCE, CHR 0xCF,
      CHR 0xD0, CHR 0xD1, CHR 0xD2, CHR 0xD3, CHR 0xD4, CHR 0xD5, CHR 0xD6, CHR 0xD8,
      CHR 0xD9, CHR 0xDA, CHR 0xDB, CHR 0xDC, CHR 0xDD, CHR 0xDE]"

definition lowerCaseLetters :: string where
  "lowerCaseLetters =
     ''abcdefghijklmnopqrstuvwxyz'' @
     [CHR 0xE0, CHR 0xE1, CHR 0xE2, CHR 0xE3, CHR 0xE4, CHR 0xE5, CHR 0xE6, CHR 0xE7,
      CHR 0xE8, CHR 0xE9, CHR 0xEA, CHR 0xEB, CHR 0xEC, CHR 0xED, CHR 0xEE, CHR 0xEF,
      CHR 0xF0, CHR 0xF1, CHR 0xF2, CHR 0xF3, CHR 0xF4, CHR 0xF5, CHR 0xF6, CHR 0xF8,
      CHR 0xF9, CHR 0xFA, CHR 0xFB, CHR 0xFC, CHR 0xFD, CHR 0xFE]"

definition toLowerChar :: "char \<Rightarrow> char" where
  "toLowerChar c =
     (case map_of (zip upperCaseLetters lowerCaseLetters) c of Some l \<Rightarrow> l | None \<Rightarrow> c)"

definition toLowerCase :: "string \<Rightarrow> string" where
  "toLowerCase s = map toLowerChar s"

fun includes_str :: "string \<Rightarrow> string \<Rightarrow> bool" where
  "includes_str [] k = (k = [])"
| "includes_str (c # cs) k = (prefix k (c # cs) \<or> includes_str cs k)"

definition digitChar :: "nat \<Rightarrow> char" where
  "digitChar d = ''0123456789'' ! (d mod 10)"

function toString :: "nat \<Rightarrow> string" where
  "toString n = (if n < 10 then [digitChar n] else toString (n div 10) @ [digitChar (n mod 10)])"
  by pat_completeness auto
termination
  by (relation "measure id") auto

declare toString.simps [simp del]

section \<open>Scenario table (client/src/lib/mock-scenarios.ts)\<close>

record scenario =
  sc_id :: string
  sc_title :: string
  sc_description :: string
  sc_imagePrompt :: string
  sc_tldrResponse :: string
  sc_fullResponse :: string

text \<open>The four entries, each response line by line as the template literal has it.\<close>

definition SCENARIOS :: "scenario list" where
  "SCENARIOS =
    [\<lparr>sc_id = ''bull_flag'',
      sc_title = ''Bull Flag Breakout'',
      sc_description =
        ''Price consolidating at VWAP with lighter volume, bids stacking up.'',
      sc_imagePrompt =
        ''Level 2 market data showing bullish consolidation. Price consolidating near '' @
        ''VWAP. Green bids stacking at 42.50. Ask side thinning out. Time and sales '' @
        ''showing green prints.'',
      sc_tldrResponse =
        ''> TL;DR ANALYSIS\<newline>'' @
        ''STATUS: BUYERS IN CONTROL\<newline>'' @
        ''MOMENTUM: Coiling at VWAP\<newline>'' @
        ''INFLECTION: 152.50 (Ask Wall Eroding)\<newline>'' @
        ''NEXT 30s: Breakout thru .50 likely\<newline>'' @
        ''ACTION: LONG BIAS - Lift the offer on volume spike'',
      sc_fullResponse =
        ''> FULL TAPE REVIEW\<newline>'' @
        ''----------------------------------------\<newline>'' @
        ''1. STRUCTURE\<newline>'' @
        ''- Classic bull flag consolidation above VWAP\<newline>'' @
        ''- Bids holding firm at 152.40, stepping up\<newline>'' @
        ''- Ask wall at 152.50 is being chipped away (refreshing slowed)\<newline>'' @
        ''\<newline>'' @
        ''2. ORDER FLOW\<newline>'' @
        ''- T&S shows consistent green prints (lifts)\<newline>'' @
        ''- Hidden buyer likely at 152.45 (iceberg)\<newline>'' @
        ''- Sellers are passive, not reloading\<newline>'' @
        ''\<newline>'' @
        ''3. SCENARIO\<newline>'' @
        ''- Continuation play imminent\<newline>'' @
        ''- If 152.50 clears, vacuum to 152.80\<newline>'' @
        ''- Watch for volume surge on the break\<newline>'' @
        ''\<newline>'' @
        ''> ACTIONABLE SETUP\<newline>'' @
        ''Long 152.50 break. Stop 152.35. Target 152.80.''\<rparr>,
     \<lparr>sc_id = ''bear_trap'',
      sc_title = ''Bear Trap / Reclaim'',
      sc_description =
        ''Price dipped below support but immediately stuffed and reclaimed.'',
      sc_imagePrompt =
        ''Level 2 market data showing a bear trap. Price dipping below support line but '' @
        ''green bids appearing aggressively. Time and sales showing rapid buying.'',
      sc_tldrResponse =
        ''> TL;DR ANALYSIS\<newline>'' @
        ''STATUS: BUYERS RECLAIMING\<newline>'' @
        ''MOMENTUM: Reversal (V-Shape)\<newline>'' @
        ''INFLECTION: 88.00 (Psychological Support)\<newline>'' @
        ''NEXT 30s: Squeeze to 88.40\<newline>'' @
        ''ACTION: LONG BIAS - Chase the reclaim, shorts are trapped'',
      sc_fullResponse =
        ''> FULL TAPE REVIEW\<newline>'' @
        ''----------------------------------------\<newline>'' @
        ''1. STRUCTURE\<newline>'' @
        ''- Failed breakdown below 88.00\<newline>'' @
        ''- Aggressive bid whack at 87.90 (absorption)\<newline>'' @
        ''- Sellers exhausted, asks lifting fast\<newline>'' @
        ''\<newline>'' @
        ''2. ORDER FLOW\<newline>'' @
        ''- Rapid green prints on T&S (panic covers)\<newline>'' @
        ''- 88.00 offer flipped to bid instantly\<newline>'' @
        ''- Speed of tape increased 3x on the reversal\<newline>'' @
        ''\<newline>'' @
        ''3. SCENARIO\<newline>'' @
        ''- Short squeeze in progress\<newline>'' @
        ''- Trapped shorts from 87.90 break need to cover\<newline>'' @
        ''- Expect fast move to VWAP\<newline>'' @
        ''\<newline>'' @
        ''> ACTIONABLE SETUP\<newline>'' @
        ''Long now (88.05). Stop 87.90. Target 88.50.''\<rparr>,
     \<lparr>sc_id = ''distribution'',
      sc_title = ''Top Distribution'',
      sc_description =
        ''Heavy volume at highs but price stalling. Hidden sellers.'',
      sc_imagePrompt =
        ''Level 2 market data showing distribution. High volume bars but price '' @
        ''flatlining at top. Red asks refreshing constantly. Time and sales mixed.'',
      sc_tldrResponse =
        ''> TL;DR ANALYSIS\<newline>'' @
        ''STATUS: SELLERS IN CONTROL (HIDDEN)\<newline>'' @
        ''MOMENTUM: Stalling / Churning\<newline>'' @
        ''INFLECTION: 210.50 (Ceiling)\<newline>'' @
        ''NEXT 30s: Rollover to 210.20\<newline>'' @
        ''ACTION: CAUTION / SHORT - Do not buy the breakout'',
      sc_fullResponse =
        ''> FULL TAPE REVIEW\<newline>'' @
        ''----------------------------------------\<newline>'' @
        ''1. STRUCTURE\<newline>'' @
        ''- Double top formation on L2\<newline>'' @
        ''- 210.50 offer keeps reloading (iceberg seller)\<newline>'' @
        ''- Buyers lifting but price not moving (churn)\<newline>'' @
        ''\<newline>'' @
        ''2. ORDER FLOW\<newline>'' @
        ''- Heavy green prints but zero price appreciation\<newline>'' @
        ''- Absorption by smart money on the ask\<newline>'' @
        ''- Bids are thinning out below\<newline>'' @
        ''\<newline>'' @
        ''3. SCENARIO\<newline>'' @
        ''- Classic distribution before the dump\<newline>'' @
        ''- Buyers are being exhausted\<newline>'' @
        ''- Once 210.40 bid pulls, flush is instant\<newline>'' @
        ''\<newline>'' @
        ''> ACTIONABLE SETUP\<newline>'' @
        ''Short 210.35 break. Stop 210.55. Target 209.80.''\<rparr>,
     \<lparr>sc_id = ''choppy'',
      sc_title = ''Mid-Day Chop'',
      sc_description =
        ''Low volume, spread widening, no clear direction.'',
      sc_imagePrompt =
        ''Level 2 market data showing choppy market. Wide spread between bid and ask. '' @
        ''Low volume. Mixed colors on time and sales. Boring market.'',
      sc_tldrResponse =
        ''> TL;DR ANALYSIS\<newline>'' @
        ''STATUS: NEUTRAL / NO CONTROL\<newline>'' @
        ''MOMENTUM: Dead / Choppy\<newline>'' @
        ''INFLECTION: None valid\<newline>'' @
        ''NEXT 30s: Rangebound 45.20-45.40\<newline>'' @
        ''ACTION: WAIT - No edge here. Sit on hands.'',
      sc_fullResponse =
        ''> FULL TAPE REVIEW\<newline>'' @
        ''----------------------------------------\<newline>'' @
        ''1. STRUCTURE\<newline>'' @
        ''- Wide spread (10c+)\<newline>'' @
        ''- Thin liquidity on both sides\<newline>'' @
        ''- No clear walls or stepping\<newline>'' @
        ''\<newline>'' @
        ''2. ORDER FLOW\<newline>'' @
        ''- T&S is slow, single lot prints\<newline>'' @
        ''- Algo ping-pong between spread\<newline>'' @
        ''- No aggression from either side\<newline>'' @
        ''\<newline>'' @
        ''3. SCENARIO\<newline>'' @
        ''- Theta burn / Chop fest\<newline>'' @
        ''- Any move likely false breakout/breakdown\<newline>'' @
        ''- Wait for volume or distinct level interaction\<newline>'' @
        ''\<newline>'' @
        ''> ACTIONABLE SETUP\<newline>'' @
        ''None. Preservation of capital mode.''\<rparr>]"

section \<open>Dashboard (client/src/pages/dashboard.tsx)\<close>

datatype role = User | Coach

datatype kind = Text | Image | Analysis

datatype mode = Tldr | Full

record chatMessage =
  c_id :: string
  c_role :: role
  c_content :: string
  c_type :: kind
  c_imageUrl :: "string option"
  c_timestamp :: nat
  c_mode :: "mode option"
  c_scenarioId :: "string option"

record chatSession =
  cs_id :: string
  cs_title :: string
  cs_createdAt :: nat
  cs_messages :: "chatMessage list"

text \<open>
  What the callback handed to \<open>setTimeout\<close> has closed over: the user message, the
  scenario if there is one, and \<open>isFullReview\<close> of the render that scheduled it.
\<close>

record timer =
  t_userMsg :: chatMessage
  t_scenario :: "scenario option"
  t_isFullReview :: bool

text \<open>
  The component's state, and the timers that are scheduled and have not fired. All
  timers are set with the same delay of 1200 ms, so they fire in the order in which
  they were set: the list is a queue.
\<close>

record dashboard =
  sessions :: "chatSession list"
  currentSessionId :: string
  messages :: "chatMessage list"
  input :: string
  isFullReview :: bool
  isTyping :: bool
  uploadedImage :: "string option"
  timers :: "timer list"

definition welcomeContent :: string where
  "welcomeContent =
     ''L2 COACH ONLINE. SYSTEM READY.\<newline>'' @
       ''Upload your L2/NBBO screenshot or select a scenario.\<newline>'' @
       ''Default Mode: TL;DR (Speed). Toggle 'Full Review' for deep analysis.''"

definition newSessionWelcomeContent :: string where
  "newSessionWelcomeContent =
     ''L2 COACH ONLINE. SYSTEM READY.\<newline>'' @
       ''Upload your L2/NBBO screenshot or select a scenario.''"

definition welcomeMessage :: "string \<Rightarrow> nat \<Rightarrow> chatMessage" where
  "welcomeMessage content now =
     \<lparr>c_id = ''welcome'', c_role = Coach, c_content = content, c_type = Text,
      c_imageUrl = None, c_timestamp = now, c_mode = None, c_scenarioId = None\<rparr>"

definition initialDashboard :: "nat \<Rightarrow> dashboard" where
  "initialDashboard now =
     \<lparr>sessions = [], currentSessionId = [], messages = [welcomeMessage welcomeContent now],
      input = [], isFullReview = False, isTyping = False, uploadedImage = None,
      timers = []\<rparr>"

text \<open>The imported placeholder image, by its import path.\<close>

definition l2Placeholder :: string where
  "l2Placeholder = ''@assets/generated_images/level_2_market_data_simulation.png''"

definition BUYER_READ :: string where
  "BUYER_READ =
     ''> COACH READ\<newline>'' @
       ''Buyers are weak here. Don't chase.\<newline>'' @
       ''I see heavy offers stacking at the half-dollar. \<newline>'' @
       ''Wait for the reclaim of the level before lifting.''"

definition SELLER_READ :: string where
  "SELLER_READ =
     ''> COACH READ\<newline>'' @
       ''Sellers are aggressive on the tape.\<newline>'' @
       ''Bids are stepping down.\<newline>'' @
       ''Look for the flush below the round number.''"

definition DISCIPLINE_READ :: string where
  "DISCIPLINE_READ =
     ''> COACH READ\<newline>'' @
       ''Good discipline.\<newline>'' @
       ''The tape is choppy right now. \<newline>'' @
       ''Preserve your capital for the A+ setup.''"

definition FALLBACK_READ :: string where
  "FALLBACK_READ =
     ''> COACH READ\<newline>'' @
       ''Understood. Keep your eyes on the T&S. \<newline>'' @
       ''Speed is increasing.\<newline>'' @
       ''Watch for the stuff move at the high of day.''"

definition generateGenericResponse :: "chatMessage \<Rightarrow> bool \<Rightarrow> string" where
  "generateGenericResponse msg fullMode =
     (let lowerContent = toLowerCase (c_content msg) in
      if includes_str lowerContent ''buyer'' \<or> includes_str lowerContent ''long''
        then BUYER_READ
      else if includes_str lowerContent ''seller'' \<or> includes_str lowerContent ''short''
        then SELLER_READ
      else if includes_str lowerContent ''wait'' \<or> includes_str lowerContent ''patience''
        then DISCIPLINE_READ
      else FALLBACK_READ)"

definition processCoachResponse ::
  "dashboard \<Rightarrow> chatMessage \<Rightarrow> scenario option \<Rightarrow> dashboard" where
  "processCoachResponse st userMsg scenario =
     st\<lparr>isTyping := True,
        timers := timers st @
          [\<lparr>t_userMsg = userMsg, t_scenario = scenario,
            t_isFullReview = isFullReview st\<rparr>]\<rparr>"

text \<open>The message the timer's callback builds when it runs at time \<open>now\<close>.\<close>

definition coachMsg :: "timer \<Rightarrow> nat \<Rightarrow> chatMessage" where
  "coachMsg t now =
     \<lparr>c_id = toString (now + 1),
      c_role = Coach,
      c_content =
        (case t_scenario t of
           Some scenario \<Rightarrow>
             if t_isFullReview t then sc_fullResponse scenario else sc_tldrResponse scenario
         | None \<Rightarrow> generateGenericResponse (t_userMsg t) (t_isFullReview t)),
      c_type = Analysis,
      c_imageUrl = None,
      c_timestamp = now,
      c_mode = Some (if t_isFullReview t then Full else Tldr),
      c_scenarioId = None\<rparr>"

text \<open>The oldest scheduled timer fires, if there is one.\<close>

definition timerFires :: "dashboard \<Rightarrow> nat \<Rightarrow> dashboard" where
  "timerFires st now =
     (case timers st of
        [] \<Rightarrow> st
      | t # rest \<Rightarrow>
          st\<lparr>messages := messages st @ [coachMsg t now], isTyping := False,
             timers := rest\<rparr>)"

definition setInput :: "dashboard \<Rightarrow> string \<Rightarrow> dashboard" where
  "setInput st v = st\<lparr>input := v\<rparr>"

definition setIsFullReview :: "dashboard \<Rightarrow> bool \<Rightarrow> dashboard" where
  "setIsFullReview st v = st\<lparr>isFullReview := v\<rparr>"

definition handleSend :: "dashboard \<Rightarrow> nat \<Rightarrow> dashboard" where
  "handleSend st now =
     (if trim (input st) = [] then st
      else let userMsg =
             \<lparr>c_id = toString now, c_role = User, c_content = input st, c_type = Text,
              c_imageUrl = None, c_timestamp = now, c_mode = None, c_scenarioId = None\<rparr>
           in processCoachResponse
                (st\<lparr>messages := messages st @ [userMsg], input := []\<rparr>) userMsg None)"

text \<open>
  The file input changed and the reader has loaded the file: its name and its data
  URL, or no file at all.
\<close>

definition handleFileUpload :: "dashboard \<Rightarrow> nat \<Rightarrow> (string \<times> string) option \<Rightarrow> dashboard" where
  "handleFileUpload st now file =
     (case file of
        None \<Rightarrow> st
      | Some (name, imageData) \<Rightarrow>
          let userMsg =
             \<lparr>c_id = toString now, c_role = User,
              c_content = ''Analyzing screenshot: '' @ name @ ''...'', c_type = Image,
              c_imageUrl = Some imageData, c_timestamp = now, c_mode = None,
              c_scenarioId = None\<rparr>
          in processCoachResponse
               (st\<lparr>uploadedImage := Some imageData, messages := messages st @ [userMsg]\<rparr>)
               userMsg None)"

definition handleSimulateScenario :: "dashboard \<Rightarrow> nat \<Rightarrow> scenario \<Rightarrow> dashboard" where
  "handleSimulateScenario st now scenario =
     (let userMsg =
        \<lparr>c_id = toString now, c_role = User,
         c_content = ''Analyzing setup: '' @ sc_title scenario @ ''...'', c_type = Image,
         c_imageUrl = Some l2Placeholder, c_timestamp = now, c_mode = None,
         c_scenarioId = Some (sc_id scenario)\<rparr>
      in processCoachResponse (st\<lparr>messages := messages st @ [userMsg]\<rparr>) userMsg
           (Some scenario))"

text \<open>
  Session handling. A handler reads the state of the render it was created in and its
  setters replace the state after it returns; \<open>deleteSession\<close> calls \<open>switchSession\<close>
  and \<open>createNewSession\<close> from inside, so these two take the state they read
  (\<open>r\<close>) and the state they update (\<open>st\<close>) apart. The time of day for the title comes
  formatted.
\<close>

definition createNewSession ::
  "dashboard \<Rightarrow> dashboard \<Rightarrow> nat \<Rightarrow> string \<Rightarrow> dashboard" where
  "createNewSession r st now timeString =
     (let newSession =
        \<lparr>cs_id = toString now, cs_title = ''Session '' @ timeString, cs_createdAt = now,
         cs_messages = [welcomeMessage newSessionWelcomeContent now]\<rparr>
      in st\<lparr>sessions := newSession # sessions r,
            currentSessionId := cs_id newSession,
            messages := cs_messages newSession,
            uploadedImage := None\<rparr>)"

definition switchSession :: "dashboard \<Rightarrow> dashboard \<Rightarrow> string \<Rightarrow> dashboard" where
  "switchSession r st sessionId =
     (case find (\<lambda>s. cs_id s = sessionId) (sessions r) of
        Some session \<Rightarrow>
          st\<lparr>currentSessionId := sessionId, messages := cs_messages session,
             uploadedImage := None\<rparr>
      | None \<Rightarrow> st)"

definition deleteSession_dashboard ::
  "dashboard \<Rightarrow> nat \<Rightarrow> string \<Rightarrow> string \<Rightarrow> dashboard" where
  "deleteSession_dashboard st now timeString sessionId =
     (let updatedSessions = filter (\<lambda>s. cs_id s \<noteq> sessionId) (sessions st);
          st1 = st\<lparr>sessions := updatedSessions\<rparr>
      in if currentSessionId st = sessionId
         then (case updatedSessions of
                 first # others \<Rightarrow> switchSession st st1 (cs_id first)
               | [] \<Rightarrow> createNewSession st st1 now timeString)
         else st1)"

text \<open>
  The effect that runs after \<open>messages\<close> changed: the current session is saved (the
  copy written to local storage is the same list and is left out).
\<close>

definition saveCurrentSession :: "dashboard \<Rightarrow> dashboard" where
  "saveCurrentSession st =
     (if currentSessionId st \<noteq> [] \<and> sessions st \<noteq> []
      then st\<lparr>sessions :=
                map (\<lambda>s. if cs_id s = currentSessionId st then s\<lparr>cs_messages := messages st\<rparr>
                          else s)
                  (sessions st)\<rparr>
      else st)"

text \<open>
  What happens in the dashboard, one event at a time: the handler of the event runs on
  the state of the last render, and when it has set \<open>messages\<close> the effect runs after
  the render that follows. (The effect compares the list by identity; a handler that
  sets a list equal to the one it replaces makes the effect save what is saved already.)
\<close>

datatype event =
    InputChanged string
  | ModeToggled bool
  | SendClicked nat
  | FileChosen nat "(string \<times> string) option"
  | ScenarioClicked nat scenario
  | TimerFired nat
  | NewSessionClicked nat string
  | SessionClicked string
  | DeleteClicked nat string string

definition handler :: "dashboard \<Rightarrow> event \<Rightarrow> dashboard" where
  "handler st ev =
     (case ev of
        InputChanged v \<Rightarrow> setInput st v
      | ModeToggled v \<Rightarrow> setIsFullReview st v
      | SendClicked now \<Rightarrow> handleSend st now
      | FileChosen now file \<Rightarrow> handleFileUpload st now file
      | ScenarioClicked now scenario \<Rightarrow> handleSimulateScenario st now scenario
      | TimerFired now \<Rightarrow> timerFires st now
      | NewSessionClicked now timeString \<Rightarrow> createNewSession st st now timeString
      | SessionClicked sessionId \<Rightarrow> switchSession st st sessionId
      | DeleteClicked now timeString sessionId \<Rightarrow>
          deleteSession_dashboard st now timeString sessionId)"




section \<open>Dashboard backed by the server (the variant that calls the HTTP routes)\<close>

definition BUYER_READ_remote :: string where
  "BUYER_READ_remote =
     ''> COACH READ\<newline>'' @
       ''Buyers are weak here. Don't chase.\<newline>'' @
       ''I see heavy offers stacking at the half-dollar.\<newline>'' @
       ''Wait for the reclaim of the level before lifting.''"

definition SELLER_READ_remote :: string where
  "SELLER_READ_remote =
     ''> COACH READ\<newline>'' @
       ''Sellers are aggressive on the tape.\<newline>'' @
       ''Bids are stepping down.\<newline>'' @
       ''Look for the flush below the round number.''"

definition FALLBACK_READ_remote :: string where
  "FALLBACK_READ_remote =
     ''> COACH READ\<newline>'' @
       ''Understood. Keep your eyes on the T&S.\<newline>'' @
       ''Speed is increasing.\<newline>'' @
       ''Watch for the stuff move at the high of day.''"

definition generateGenericResponse_remote :: "string \<Rightarrow> bool \<Rightarrow> string" where
  "generateGenericResponse_remote content fullMode =
     (let lower = toLowerCase content in
      if includes_str lower ''buyer'' \<or> includes_str lower ''long'' then BUYER_READ_remote
      else if includes_str lower ''seller'' \<or> includes_str lower ''short''
        then SELLER_READ_remote
      else FALLBACK_READ_remote)"

text \<open>
  \<open>deleteSessionMutation\<close>: the mutation function sends \<open>DELETE /api/sessions/:id\<close>
  and throws unless the response is ok; \<open>onSuccess\<close> then reads \<open>sessions\<close>, the
  list the sessions query last delivered to the component.
\<close>

definition ok :: "response \<Rightarrow> bool" where
  "ok res \<longleftrightarrow> 200 \<le> status res \<and> status res \<le> 299"

definition deleteSessionMutation_onSuccess :: "session list \<Rightarrow> string \<Rightarrow> string" where
  "deleteSessionMutation_onSuccess cached current =
     (case cached of first # others \<Rightarrow> s_id first | [] \<Rightarrow> current)"

definition deleteSessionMutation ::
  "database \<Rightarrow> session list \<Rightarrow> string \<Rightarrow> string \<Rightarrow> database \<times> string" where
  "deleteSessionMutation db cached current ident =
     (let (res, db') = DELETE_session db ident
      in if ok res then (db', deleteSessionMutation_onSuccess cached current)
         else (db', current))"

section \<open>Auxiliary notions and concrete inputs\<close>

text \<open>
  Small databases, requests and dashboard states on which the results below are run,
  and the notion of a submission taking its turn.
\<close>

definition sessionA :: session where
  "sessionA = \<lparr>s_id = ''A'', s_title = ''Morning'', s_createdAt = 10\<rparr>"

definition sessionB :: session where
  "sessionB = \<lparr>s_id = ''B'', s_title = ''Evening'', s_createdAt = 20\<rparr>"

definition twoSessions :: database where
  "twoSessions = \<lparr>online = True, tbl_sessions = [sessionA, sessionB], heap_messages = []\<rparr>"

definition emptyContentBody :: messageBody where
  "emptyContentBody =
     \<lparr>b_role = Some ''user'', b_content = Some [], b_type = Some ''text'',
      b_imageUrl = None, b_imageData = None, b_mode = None, b_scenarioId = None\<rparr>"

definition helloBody :: messageBody where
  "helloBody =
     \<lparr>b_role = Some ''user'', b_content = Some ''hello'', b_type = Some ''text'',
      b_imageUrl = Some [], b_imageData = None, b_mode = None, b_scenarioId = None\<rparr>"

definition helloRow :: message where
  "helloRow =
     \<lparr>m_id = ''m1'', m_sessionId = ''A'', m_role = ''user'', m_content = ''hello'',
      m_type = ''text'', m_imageUrl = None, m_imageData = None, m_mode = None,
      m_scenarioId = None, m_timestamp = 30\<rparr>"

definition quietOutside :: outside where
  "quietOutside = \<lparr>o_newId = ''m1'', o_now = 30, o_completion = Inr None\<rparr>"

definition textData :: insertMessage where
  "textData =
     \<lparr>im_sessionId = ''A'', im_role = ''user'', im_content = ''hello'', im_type = ''text'',
      im_imageUrl = None, im_imageData = None, im_mode = None, im_scenarioId = None\<rparr>"

definition oneMessageCommands :: "command list" where
  "oneMessageCommands =
     [CreateSession ''A'' 10 ''Morning'', CreateSession ''B'' 20 ''Evening'',
      CreateMessage ''m1'' 30 textData]"

definition oneMessage :: database where
  "oneMessage =
     \<lparr>online = True, tbl_sessions = [sessionA, sessionB], heap_messages = [Live helloRow]\<rparr>"

definition onlySessionB :: database where
  "onlySessionB = \<lparr>online = True, tbl_sessions = [sessionB], heap_messages = [Dead]\<rparr>"

definition againData :: insertMessage where
  "againData =
     \<lparr>im_sessionId = ''A'', im_role = ''coach'', im_content = ''again'', im_type = ''analysis'',
      im_imageUrl = None, im_imageData = None, im_mode = Some ''tldr'', im_scenarioId = None\<rparr>"

definition againRow :: message where
  "againRow =
     \<lparr>m_id = ''m2'', m_sessionId = ''A'', m_role = ''coach'', m_content = ''again'',
      m_type = ''analysis'', m_imageUrl = None, m_imageData = None, m_mode = Some ''tldr'',
      m_scenarioId = None, m_timestamp = 30\<rparr>"

definition draftData :: insertMessage where
  "draftData =
     \<lparr>im_sessionId = ''B'', im_role = ''user'', im_content = ''draft'', im_type = ''text'',
      im_imageUrl = None, im_imageData = None, im_mode = None, im_scenarioId = None\<rparr>"

definition draftRow :: message where
  "draftRow = \<lparr>m_id = ''m0'', m_sessionId = ''B'', m_role = ''user'', m_content = ''draft'',
     m_type = ''text'', m_imageUrl = None, m_imageData = None, m_mode = None,
     m_scenarioId = None, m_timestamp = 25\<rparr>"

text \<open>
  A history of the store: a message in session B, a message in session A, session B
  deleted, the table vacuumed, and a second message in session A at the timestamp of
  the first.
\<close>

definition reuseHistory :: "command list" where
  "reuseHistory =
     [CreateSession ''A'' 10 ''Morning'', CreateSession ''B'' 20 ''Evening'',
      CreateMessage ''m0'' 25 draftData, CreateMessage ''m1'' 30 textData,
      DeleteSession ''B'', Vacuum, CreateMessage ''m2'' 30 againData]"

definition laterRow :: message where
  "laterRow =
     \<lparr>m_id = ''m3'', m_sessionId = ''A'', m_role = ''user'', m_content = ''later'',
      m_type = ''text'', m_imageUrl = None, m_imageData = None, m_mode = None,
      m_scenarioId = None, m_timestamp = 40\<rparr>"

definition otherRow :: message where
  "otherRow =
     \<lparr>m_id = ''m4'', m_sessionId = ''B'', m_role = ''user'', m_content = ''elsewhere'',
      m_type = ''text'', m_imageUrl = None, m_imageData = None, m_mode = None,
      m_scenarioId = None, m_timestamp = 35\<rparr>"

definition unorderedTable :: database where
  "unorderedTable =
     \<lparr>online = True, tbl_sessions = [sessionA, sessionB],
      heap_messages = [Live laterRow, Live otherRow, Live helloRow]\<rparr>"


definition typed :: "string \<Rightarrow> chatMessage" where
  "typed content =
     \<lparr>c_id = ''1000'', c_role = User, c_content = content, c_type = Text, c_imageUrl = None,
      c_timestamp = 1000, c_mode = None, c_scenarioId = None\<rparr>"




text \<open>The roles of the messages in the log of each session.\<close>

definition roles :: "dashboard \<Rightarrow> (string \<times> role list) list" where
  "roles st = map (\<lambda>s. (cs_id s, map c_role (cs_messages s))) (sessions st)"

definition bullFlagTldr :: string where
  "bullFlagTldr =
     ''> TL;DR ANALYSIS\<newline>'' @
     ''STATUS: BUYERS IN CONTROL\<newline>'' @
     ''MOMENTUM: Coiling at VWAP\<newline>'' @
     ''INFLECTION: 152.50 (Ask Wall Eroding)\<newline>'' @
     ''NEXT 30s: Breakout thru .50 likely\<newline>'' @
     ''ACTION: LONG BIAS - Lift the offer on volume spike''"

definition firstSent :: dashboard where
  "firstSent = handleSend (setInput (initialDashboard 0) ''first'') 1000"

definition secondSent :: dashboard where
  "secondSent = handleSend (setInput firstSent ''second'') 1500"

definition sessionC :: session where
  "sessionC = \<lparr>s_id = ''C'', s_title = ''Night'', s_createdAt = 5\<rparr>"

definition threeSessions :: database where
  "threeSessions =
     \<lparr>online = True, tbl_sessions = [sessionC, sessionA, sessionB], heap_messages = []\<rparr>"

section \<open>Basic facts about the helpers\<close>

lemma falsy_simps: "falsy None" "falsy (Some s) = (s = [])"
  by (simp_all add: falsy_def)

lemma try_catch_simps: "try_catch (Inl e) h = h" "try_catch (Inr r) h = r"
  by (simp_all add: try_catch_def)

lemma await_simps: "await (Inl e) k = Inl (DbError e)" "await (Inr v) k = k v"
  by (simp_all add: await_def)

section \<open>The heap of the messages table\<close>

lemma mset_live_place: "mset (live (place x ss)) = add_mset x (mset (live ss))"
  by (induction x ss rule: place.induct) simp_all

lemma set_live_place: "set (live (place x ss)) = insert x (set (live ss))"
  by (induction x ss rule: place.induct) auto

lemma live_expire: "live (expire p ss) = filter (\<lambda>x. \<not> p x) (live ss)"
  unfolding expire_def by (induction ss rule: live.induct) simp_all

lemma live_vacuum: "live (vacuum ss) = live ss"
  unfolding vacuum_def by (induction ss rule: live.induct) simp_all

lemma expire_nothing: "expire (\<lambda>x. False) ss = ss"
  unfolding expire_def by (induction ss rule: live.induct) simp_all

lemma tbl_messages_simps:
  "tbl_messages (db\<lparr>heap_messages := h\<rparr>) = live h"
  "tbl_messages (db\<lparr>tbl_sessions := rows\<rparr>) = tbl_messages db"
  "tbl_messages (db\<lparr>online := b\<rparr>) = tbl_messages db"
  by (simp_all add: tbl_messages_def)

lemmas heap_simps = tbl_messages_simps set_live_place live_expire live_vacuum expire_nothing

section \<open>Creating messages through the API\<close>

lemma POST_messages_400:
  assumes "falsy (b_role b) \<or> falsy (b_content b) \<or> falsy (b_type b)"
  shows "POST_messages db newId now sid b =
           (\<lparr>status = 400, body = ErrorBody ''Missing required fields''\<rparr>, db)"
  using assms
  by (simp add: POST_messages_def POST_messages_try_def try_catch_def status_json_def)

lemma createMessage_rows:
  "createMessage db newId now data = Inr (row, db') \<Longrightarrow>
     set (tbl_messages db') = insert row (set (tbl_messages db))
     \<and> m_content row = im_content data
     \<and> m_role row = im_role data \<and> m_type row = im_type data
     \<and> m_sessionId row = im_sessionId data
     \<and> tbl_sessions db' = tbl_sessions db \<and> online db' = online db"
  by (auto simp: createMessage_def Let_def heap_simps tbl_messages_def split: if_splits)

lemma POST_messages_new:
  assumes "POST_messages db newId now sid b = (res, db')"
      and "m \<in> set (tbl_messages db')" "m \<notin> set (tbl_messages db)"
  shows "m_content m \<noteq> [] \<and> m_role m \<noteq> [] \<and> m_type m \<noteq> []"
proof (cases "falsy (b_role b) \<or> falsy (b_content b) \<or> falsy (b_type b)")
  case True
  with assms show ?thesis by (simp add: POST_messages_400)
next
  case False
  then obtain r c t where f: "b_role b = Some r" "b_content b = Some c" "b_type b = Some t"
      "r \<noteq> []" "c \<noteq> []" "t \<noteq> []"
    by (auto simp: falsy_def split: option.splits)
  show ?thesis
  proof (cases "createMessage db newId now
                    \<lparr>im_sessionId = sid,
                     im_role = the (b_role b),
                     im_content = the (b_content b),
                     im_type = the (b_type b),
                     im_imageUrl = orNull (b_imageUrl b),
                     im_imageData = orNull (b_imageData b),
                     im_mode = orNull (b_mode b),
                     im_scenarioId = orNull (b_scenarioId b)\<rparr>")
    case (Inl e)
    with assms False show ?thesis
      by (simp add: POST_messages_def POST_messages_try_def try_catch_def await_def)
  next
    case (Inr p)
    obtain row d where p: "p = (row, d)" by (cases p)
    from createMessage_rows[OF Inr[unfolded p]] assms False Inr p f show ?thesis
      by (auto simp add: POST_messages_def POST_messages_try_def try_catch_def await_def)
  qed
qed

lemma createSession_messages:
  "createSession db newId now title = Inr (row, db') \<Longrightarrow> tbl_messages db' = tbl_messages db"
  by (auto simp: createSession_def Let_def heap_simps split: if_splits)

lemma deleteSession_messages_subset:
  "deleteSession db ident = Inr db' \<Longrightarrow> set (tbl_messages db') \<subseteq> set (tbl_messages db)"
  by (auto simp: deleteSession_def Let_def heap_simps tbl_messages_def split: if_splits)

lemma POST_sessions_messages:
  "tbl_messages (snd (POST_sessions db newId now title)) = tbl_messages db"
  by (cases "createSession db newId now (the title)")
     (auto simp: POST_sessions_def POST_sessions_try_def try_catch_def await_def
           dest: createSession_messages)

lemma DELETE_session_messages:
  "set (tbl_messages (snd (DELETE_session db ident))) \<subseteq> set (tbl_messages db)"
  by (cases "deleteSession db ident")
     (auto simp: DELETE_session_def DELETE_session_try_def try_catch_def await_def
           dest: deleteSession_messages_subset)

lemma handle_new_message:
  assumes "m \<in> set (tbl_messages (snd (handle degrading eng out db req)))"
      and "m \<notin> set (tbl_messages db)"
  shows "m_content m \<noteq> [] \<and> m_role m \<noteq> [] \<and> m_type m \<noteq> []"
proof (cases req)
  case (PostMessages sid b)
  with assms POST_messages_new[of db "o_newId out" "o_now out" sid b
      "fst (POST_messages db (o_newId out) (o_now out) sid b)"
      "snd (POST_messages db (o_newId out) (o_now out) sid b)" m]
  show ?thesis by (simp add: handle_def)
next
  case (PostSessions title)
  with assms show ?thesis by (simp add: handle_def POST_sessions_messages)
next
  case (DeleteSessionReq ident)
  with assms DELETE_session_messages[of db ident] show ?thesis by (auto simp: handle_def)
qed (use assms in \<open>simp_all add: handle_def\<close>)

lemma createMessage_accepts_empty_content:
  assumes "online db" "newId \<notin> set (map m_id (tbl_messages db))"
      and "im_sessionId data \<in> set (map s_id (tbl_sessions db))"
  shows "\<exists>row db'. createMessage db newId now (data\<lparr>im_content := []\<rparr>) = Inr (row, db')
           \<and> m_content row = []"
  using assms by (simp add: createMessage_def Let_def)

lemma stableEngine_ok: "engine_ok stableEngine"
  by (simp add: engine_ok_def order_by_desc_createdAt_def order_by_timestamp_def
      stableEngine_def rev_map)

lemma order_by_timestamp_Nil: "order_by_timestamp ob \<Longrightarrow> ob [] = []"
  by (metis mset_zero_iff order_by_timestamp_def)

lemma fk_ok_empty: "fk_ok emptyDatabase"
  by (simp add: fk_ok_def emptyDatabase_def tbl_messages_def)

lemma ids_of_gone:
  "set (map s_id (filter (\<lambda>s. s_id s = S) rows)) = (if S \<in> set (map s_id rows) then {S} else {})"
  by (induction rows) auto

lemma ids_after_rename:
  "map s_id (map (\<lambda>s. if s_id s = ident then s\<lparr>s_title := title\<rparr> else s) rows) = map s_id rows"
  by (induction rows) auto

lemma fk_ok_same_ids:
  assumes "map s_id (tbl_sessions db') = map s_id (tbl_sessions db)"
      and "tbl_messages db' = tbl_messages db"
  shows "fk_ok db' = fk_ok db"
  unfolding fk_ok_def assms ..

lemma updateSession_tables:
  assumes "updateSession db ident title = Inr (row, db')"
  shows "map s_id (tbl_sessions db') = map s_id (tbl_sessions db)
         \<and> tbl_messages db' = tbl_messages db"
proof -
  from assms have "db' = db\<lparr>tbl_sessions :=
      map (\<lambda>s. if s_id s = ident then s\<lparr>s_title := title\<rparr> else s) (tbl_sessions db)\<rparr>"
    by (auto simp: updateSession_def Let_def split: if_splits)
  then show ?thesis
    using ids_after_rename[of ident title "tbl_sessions db"] by (simp add: tbl_messages_def)
qed

lemma fk_ok_exec: "fk_ok db \<Longrightarrow> fk_ok (exec db c)"
proof (cases c)
  case (CreateSession newId now title)
  assume "fk_ok db"
  then show ?thesis using CreateSession
    by (auto simp: exec_def createSession_def fk_ok_def Let_def heap_simps)
next
  case (DeleteSession ident)
  assume "fk_ok db"
  then show ?thesis using DeleteSession
    by (auto simp: exec_def deleteSession_def fk_ok_def Let_def heap_simps tbl_messages_def)
next
  case (UpdateSession ident title)
  assume "fk_ok db"
  show ?thesis
  proof (cases "updateSession db ident title")
    case (Inl e)
    with \<open>fk_ok db\<close> UpdateSession show ?thesis by (simp add: exec_def)
  next
    case (Inr p)
    obtain row db' where p: "p = (row, db')" by (cases p)
    from updateSession_tables[OF Inr[unfolded p]] have "fk_ok db' = fk_ok db"
      by (intro fk_ok_same_ids) simp_all
    with \<open>fk_ok db\<close> UpdateSession Inr p show ?thesis by (simp add: exec_def)
  qed
next
  case (CreateMessage newId now data)
  assume "fk_ok db"
  then show ?thesis using CreateMessage
    by (auto simp: exec_def createMessage_def fk_ok_def Let_def heap_simps tbl_messages_def)
next
  case (DeleteMessage ident)
  assume "fk_ok db"
  then show ?thesis using DeleteMessage
    by (auto simp: exec_def deleteMessage_def fk_ok_def Let_def heap_simps tbl_messages_def)
next
  case (DeleteMessagesBySession sid)
  assume "fk_ok db"
  then show ?thesis using DeleteMessagesBySession
    by (auto simp: exec_def deleteMessagesBySession_def fk_ok_def Let_def heap_simps
        tbl_messages_def)
next
  case (SetOnline b)
  assume "fk_ok db"
  then show ?thesis using SetOnline
    by (auto simp: exec_def fk_ok_def heap_simps)
next
  case Vacuum
  assume "fk_ok db"
  then show ?thesis using Vacuum
    by (auto simp: exec_def fk_ok_def heap_simps tbl_messages_def)
qed

lemma fk_ok_foldl: "fk_ok db \<Longrightarrow> fk_ok (foldl exec db cs)"
  by (induction cs arbitrary: db) (simp_all add: fk_ok_exec)

lemma fk_ok_run: "fk_ok (run cs)"
  by (simp add: run_def fk_ok_foldl fk_ok_empty)

lemma deleteSession_result:
  assumes "deleteSession db S = Inr db'"
  shows "online db \<and> online db' \<and> S \<notin> set (map s_id (tbl_sessions db'))
     \<and> tbl_sessions db' = filter (\<lambda>s. s_id s \<noteq> S) (tbl_sessions db)
     \<and> set (tbl_messages db') \<subseteq> set (tbl_messages db)"
  using assms
  by (auto simp: deleteSession_def Let_def heap_simps tbl_messages_def split: if_splits)

lemma deleteSession_cascade:
  assumes "fk_ok db" "deleteSession db S = Inr db'"
  shows "\<forall>m \<in> set (tbl_messages db'). m_sessionId m \<noteq> S"
proof
  fix m assume m: "m \<in> set (tbl_messages db')"
  from assms(2) have on: "online db"
    and rows: "tbl_messages db' =
      filter (\<lambda>m. m_sessionId m \<notin> set (map s_id (filter (\<lambda>s. s_id s = S) (tbl_sessions db))))
        (tbl_messages db)"
    by (auto simp: deleteSession_def Let_def heap_simps tbl_messages_def split: if_splits)
  from m rows have old: "m \<in> set (tbl_messages db)"
    and kept: "m_sessionId m \<notin> set (map s_id (filter (\<lambda>s. s_id s = S) (tbl_sessions db)))"
    by auto
  from assms(1) old have "m_sessionId m \<in> set (map s_id (tbl_sessions db))"
    by (simp add: fk_ok_def)
  with kept show "m_sessionId m \<noteq> S"
    by (auto simp: ids_of_gone split: if_splits)
qed

lemma deleteSession_fk_ok:
  assumes "fk_ok db" "deleteSession db S = Inr db'"
  shows "fk_ok db'"
  using fk_ok_exec[OF assms(1), of "DeleteSession S"] assms(2) by (simp add: exec_def)

lemma getMessagesBySession_none:
  assumes "order_by_timestamp (orderMessages eng)" "online db"
      and "\<forall>m \<in> set (tbl_messages db). m_sessionId m \<noteq> S"
  shows "getMessagesBySession eng db S = Inr []"
proof -
  have "filter (\<lambda>m. m_sessionId m = S) (tbl_messages db) = []"
    using assms(3) by (simp add: filter_empty_conv)
  then show ?thesis
    using assms(1,2) by (simp add: getMessagesBySession_def order_by_timestamp_Nil)
qed

lemma run_oneMessageCommands: "run oneMessageCommands = oneMessage"
  by (simp add: run_def oneMessageCommands_def exec_def createSession_def createMessage_def
      emptyDatabase_def textData_def oneMessage_def sessionA_def sessionB_def helloRow_def Let_def
      tbl_messages_def)

lemma deleteSession_oneMessage: "deleteSession oneMessage ''A'' = Inr onlySessionB"
  by (simp add: deleteSession_def oneMessage_def onlySessionB_def sessionA_def sessionB_def
      helloRow_def expire_def Let_def)

section \<open>Listing the messages of a session\<close>

lemma getMessagesBySession_returns:
  "online db \<Longrightarrow> \<exists>out. getMessagesBySession eng db S = Inr out"
  by (simp add: getMessagesBySession_def)

lemma getMessagesBySession_contents:
  assumes "order_by_timestamp (orderMessages eng)"
      and "getMessagesBySession eng db S = Inr out"
  shows "sorted (map m_timestamp out)"
    and "mset out = mset (filter (\<lambda>m. m_sessionId m = S) (tbl_messages db))"
proof -
  from assms(2) have out: "out = orderMessages eng (filter (\<lambda>m. m_sessionId m = S) (tbl_messages db))"
    by (auto simp: getMessagesBySession_def split: if_splits)
  from assms(1) show "sorted (map m_timestamp out)"
    unfolding out order_by_timestamp_def by blast
  from assms(1) show "mset out = mset (filter (\<lambda>m. m_sessionId m = S) (tbl_messages db))"
    unfolding out order_by_timestamp_def by blast
qed

lemmas step_eval = exec_def createSession_def createMessage_def deleteSession_def
  expire_def vacuum_def tbl_messages_def Let_def

lemma reuse_step1:
  "exec emptyDatabase (CreateSession ''A'' 10 ''Morning'') =
     \<lparr>online = True, tbl_sessions = [sessionA], heap_messages = []\<rparr>"
  by (simp add: step_eval emptyDatabase_def sessionA_def)

lemma reuse_step2:
  "exec \<lparr>online = True, tbl_sessions = [sessionA], heap_messages = []\<rparr>
        (CreateSession ''B'' 20 ''Evening'') =
     \<lparr>online = True, tbl_sessions = [sessionA, sessionB], heap_messages = []\<rparr>"
  by (simp add: step_eval sessionA_def sessionB_def)

lemma reuse_step3:
  "exec \<lparr>online = True, tbl_sessions = [sessionA, sessionB], heap_messages = []\<rparr>
        (CreateMessage ''m0'' 25 draftData) =
     \<lparr>online = True, tbl_sessions = [sessionA, sessionB], heap_messages = [Live draftRow]\<rparr>"
  by (simp add: step_eval sessionA_def sessionB_def draftData_def draftRow_def)

lemma reuse_step4:
  "exec \<lparr>online = True, tbl_sessions = [sessionA, sessionB], heap_messages = [Live draftRow]\<rparr>
        (CreateMessage ''m1'' 30 textData) =
     \<lparr>online = True, tbl_sessions = [sessionA, sessionB],
        heap_messages = [Live draftRow, Live helloRow]\<rparr>"
  by (simp add: step_eval sessionA_def sessionB_def textData_def draftRow_def helloRow_def)

lemma reuse_step5:
  "exec \<lparr>online = True, tbl_sessions = [sessionA, sessionB],
          heap_messages = [Live draftRow, Live helloRow]\<rparr> (DeleteSession ''B'') =
     \<lparr>online = True, tbl_sessions = [sessionA], heap_messages = [Dead, Live helloRow]\<rparr>"
  by (simp add: step_eval sessionA_def sessionB_def draftRow_def helloRow_def)

lemma reuse_step6:
  "exec \<lparr>online = True, tbl_sessions = [sessionA], heap_messages = [Dead, Live helloRow]\<rparr>
        Vacuum =
     \<lparr>online = True, tbl_sessions = [sessionA], heap_messages = [Free, Live helloRow]\<rparr>"
  by (simp add: step_eval)

lemma reuse_step7:
  "exec \<lparr>online = True, tbl_sessions = [sessionA], heap_messages = [Free, Live helloRow]\<rparr>
        (CreateMessage ''m2'' 30 againData) =
     \<lparr>online = True, tbl_sessions = [sessionA], heap_messages = [Live againRow, Live helloRow]\<rparr>"
  by (simp add: step_eval sessionA_def againData_def againRow_def helloRow_def)

lemmas reuse_steps = reuse_step1 reuse_step2 reuse_step3 reuse_step4 reuse_step5 reuse_step6
  reuse_step7

lemma run_reuseHistory:
  "run (butlast reuseHistory) =
     \<lparr>online = True, tbl_sessions = [sessionA], heap_messages = [Free, Live helloRow]\<rparr>"
  "run reuseHistory =
     \<lparr>online = True, tbl_sessions = [sessionA], heap_messages = [Live againRow, Live helloRow]\<rparr>"
  by (simp_all add: run_def reuseHistory_def reuse_steps)

section \<open>Deleting a session through the API\<close>

lemma deleteSession_absent:
  assumes "online db" "S \<notin> set (map s_id (tbl_sessions db))"
  shows "deleteSession db S = Inr db"
proof -
  have "filter (\<lambda>s. s_id s \<noteq> S) (tbl_sessions db) = tbl_sessions db"
    using assms(2) by (auto simp: filter_id_conv)
  moreover have "filter (\<lambda>s. s_id s = S) (tbl_sessions db) = []"
    using assms(2) by (auto simp: filter_empty_conv)
  ultimately show ?thesis using assms(1) by (simp add: deleteSession_def expire_nothing)
qed

lemma DELETE_session_online:
  assumes "online db"
  shows "\<exists>db'. deleteSession db S = Inr db'
           \<and> DELETE_session db S = (\<lparr>status = 200, body = SuccessTrue\<rparr>, db')"
  using assms
  by (simp add: DELETE_session_def DELETE_session_try_def deleteSession_def await_def
      try_catch_def json_def Let_def)

lemma DELETE_session_offline:
  assumes "\<not> online db"
  shows "DELETE_session db S = (\<lparr>status = 500, body = ErrorBody ''Failed to delete session''\<rparr>, db)"
  using assms
  by (simp add: DELETE_session_def DELETE_session_try_def deleteSession_def await_def
      try_catch_def status_json_def)

section \<open>Errors at the request boundary\<close>

lemma caught_simps: "caught (Inl e) = Some e" "caught (Inr r) = None"
  by (simp_all add: caught_def)
















section \<open>The keyword matcher\<close>

lemma includes_str_sublist: "includes_str s k \<longleftrightarrow> sublist k s"
  by (induction s) (auto simp: sublist_Cons_right)

lemmas toLowerCase_eval =
  toLowerCase_def toLowerChar_def upperCaseLetters_def lowerCaseLetters_def

lemma lower_example:
  "toLowerCase ''I think buyers are strong'' = ''i think buyers are strong''"
  by (simp add: toLowerCase_eval)

lemma reads_distinct:
  "BUYER_READ \<noteq> SELLER_READ" "BUYER_READ \<noteq> FALLBACK_READ" "SELLER_READ \<noteq> FALLBACK_READ"
  "BUYER_READ \<noteq> DISCIPLINE_READ" "SELLER_READ \<noteq> DISCIPLINE_READ"
  "DISCIPLINE_READ \<noteq> FALLBACK_READ"
  "BUYER_READ_remote \<noteq> SELLER_READ_remote" "BUYER_READ_remote \<noteq> FALLBACK_READ_remote"
  "SELLER_READ_remote \<noteq> FALLBACK_READ_remote"
  by (simp_all add: BUYER_READ_def SELLER_READ_def FALLBACK_READ_def DISCIPLINE_READ_def
      BUYER_READ_remote_def SELLER_READ_remote_def FALLBACK_READ_remote_def)

section \<open>Submitting and replying in the dashboard\<close>

lemma processCoachResponse_fields:
  "messages (processCoachResponse st u sc) = messages st"
  "timers (processCoachResponse st u sc) =
     timers st @ [\<lparr>t_userMsg = u, t_scenario = sc, t_isFullReview = isFullReview st\<rparr>]"
  "isTyping (processCoachResponse st u sc)"
  "isFullReview (processCoachResponse st u sc) = isFullReview st"
  "sessions (processCoachResponse st u sc) = sessions st"
  "currentSessionId (processCoachResponse st u sc) = currentSessionId st"
  by (simp_all add: processCoachResponse_def)

lemma handleSend_blank: "trim (input st) = [] \<Longrightarrow> handleSend st now = st"
  by (simp add: handleSend_def)

lemma handleSend_accepted:
  assumes "trim (input st) \<noteq> []"
  shows "\<exists>u. messages (handleSend st now) = messages st @ [u]
           \<and> timers (handleSend st now) =
               timers st @ [\<lparr>t_userMsg = u, t_scenario = None, t_isFullReview = isFullReview st\<rparr>]
           \<and> c_role u = User \<and> c_type u = Text \<and> c_content u = input st
           \<and> c_timestamp u = now \<and> c_scenarioId u = None"
  using assms by (simp add: handleSend_def Let_def processCoachResponse_def)

lemma handleSend_flags:
  assumes "trim (input st) \<noteq> []"
  shows "isTyping (handleSend st now)" "input (handleSend st now) = []"
    "isFullReview (handleSend st now) = isFullReview st"
  using assms by (simp_all add: handleSend_def Let_def processCoachResponse_def)

lemma handleFileUpload_none: "handleFileUpload st now None = st"
  by (simp add: handleFileUpload_def)

lemma handleFileUpload_accepted:
  "\<exists>u. messages (handleFileUpload st now (Some (name, imageData))) = messages st @ [u]
       \<and> timers (handleFileUpload st now (Some (name, imageData))) =
           timers st @ [\<lparr>t_userMsg = u, t_scenario = None, t_isFullReview = isFullReview st\<rparr>]
       \<and> c_role u = User \<and> c_type u = Image \<and> c_imageUrl u = Some imageData
       \<and> c_timestamp u = now \<and> c_scenarioId u = None"
  by (simp add: handleFileUpload_def Let_def processCoachResponse_def)

lemma handleSimulateScenario_accepted:
  "\<exists>u. messages (handleSimulateScenario st now sc) = messages st @ [u]
       \<and> timers (handleSimulateScenario st now sc) =
           timers st @ [\<lparr>t_userMsg = u, t_scenario = Some sc, t_isFullReview = isFullReview st\<rparr>]
       \<and> c_role u = User \<and> c_type u = Image \<and> c_timestamp u = now
       \<and> c_scenarioId u = Some (sc_id sc)"
  by (simp add: handleSimulateScenario_def Let_def processCoachResponse_def)

lemma coachMsg_fields:
  "c_role (coachMsg t now) = Coach" "c_type (coachMsg t now) = Analysis"
  "c_timestamp (coachMsg t now) = now"
  "c_mode (coachMsg t now) = Some (if t_isFullReview t then Full else Tldr)"
  by (simp_all add: coachMsg_def)

lemma coachMsg_scenario:
  "t_scenario t = Some sc \<Longrightarrow>
     c_content (coachMsg t now) = (if t_isFullReview t then sc_fullResponse sc else sc_tldrResponse sc)"
  by (simp add: coachMsg_def)

lemma timerFires_idle: "timers st = [] \<Longrightarrow> timerFires st now = st"
  by (simp add: timerFires_def)

lemma timerFires_Cons:
  assumes "timers st = t # rest"
  shows "messages (timerFires st now) = messages st @ [coachMsg t now]"
    and "timers (timerFires st now) = rest"
    and "\<not> isTyping (timerFires st now)"
  using assms by (simp_all add: timerFires_def)

lemma timerFires_after_submit:
  assumes "timers st = []"
      and "messages st' = messages st @ [u]"
      and "timers st' = timers st @ [t]"
  shows "messages (timerFires st' later) = messages st @ [u, coachMsg t later]"
    and "timers (timerFires st' later) = []"
    and "\<not> isTyping (timerFires st' later)"
  using assms by (simp_all add: timerFires_def)

text \<open>The timers that are pending all fire, one after the other, at the given times.\<close>

lemma fireAll_messages:
  "length nows = length (timers st) \<Longrightarrow>
     messages (foldl timerFires st nows) = messages st @ map2 coachMsg (timers st) nows
     \<and> timers (foldl timerFires st nows) = []"
proof (induction nows arbitrary: st)
  case Nil
  then show ?case by simp
next
  case (Cons now nows)
  then obtain t rest where ts: "timers st = t # rest" by (cases "timers st") auto
  with Cons.prems have len: "length nows = length (timers (timerFires st now))"
    by (simp add: timerFires_Cons(2))
  from Cons.IH[OF len] ts show ?case
    by (simp add: timerFires_Cons)
qed


lemma trim_spaces: "trim ''  '' = []"
  by (simp add: trim_def isWhiteSpace_def)

section \<open>Events of the dashboard and the saved sessions\<close>









section \<open>Scenario replies\<close>

lemma bull_flag_found:
  "\<exists>sc. find (\<lambda>s. sc_id s = ''bull_flag'') SCENARIOS = Some sc \<and> sc = hd SCENARIOS
        \<and> sc_title sc = ''Bull Flag Breakout''"
  by (simp add: SCENARIOS_def)

lemma scenario_reply:
  assumes "timers st = []"
  shows "\<exists>u c. messages (timerFires (handleSimulateScenario st now sc) later) =
                 messages st @ [u, c]
          \<and> c_role u = User \<and> c_scenarioId u = Some (sc_id sc)
          \<and> c_role c = Coach \<and> c_type c = Analysis
          \<and> c_content c = (if isFullReview st then sc_fullResponse sc else sc_tldrResponse sc)
          \<and> c_mode c = Some (if isFullReview st then Full else Tldr)"
proof -
  from handleSimulateScenario_accepted[of st now sc] obtain u where
    u: "messages (handleSimulateScenario st now sc) = messages st @ [u]"
       "timers (handleSimulateScenario st now sc) =
          timers st @ [\<lparr>t_userMsg = u, t_scenario = Some sc, t_isFullReview = isFullReview st\<rparr>]"
       "c_role u = User" "c_scenarioId u = Some (sc_id sc)"
    by blast
  let ?t = "\<lparr>t_userMsg = u, t_scenario = Some sc, t_isFullReview = isFullReview st\<rparr>"
  from timerFires_after_submit(1)[OF assms u(1,2), of later]
  have "messages (timerFires (handleSimulateScenario st now sc) later) =
          messages st @ [u, coachMsg ?t later]" .
  moreover have "c_content (coachMsg ?t later) =
      (if isFullReview st then sc_fullResponse sc else sc_tldrResponse sc)"
    by (simp add: coachMsg_scenario)
  ultimately show ?thesis using u(3,4) by (auto simp: coachMsg_fields)
qed

section \<open>Sending while a reply is pending\<close>

lemma handleSend_isTyping:
  assumes "trim (input st) \<noteq> []"
  shows "handleSend (st\<lparr>isTyping := b\<rparr>) now = handleSend st now"
  using assms by (simp add: handleSend_def Let_def processCoachResponse_def)

lemma trim_first_second: "trim ''first'' = ''first''" "trim ''second'' = ''second''"
  by (simp_all add: trim_def isWhiteSpace_def)

lemma firstSent_state:
  "isTyping firstSent" "length (timers firstSent) = 1"
  "map (\<lambda>m. (c_role m, c_content m)) (messages firstSent) =
     [(Coach, welcomeContent), (User, ''first'')]"
  by (simp_all add: firstSent_def handleSend_def setInput_def initialDashboard_def Let_def
      processCoachResponse_def trim_first_second welcomeMessage_def)

lemma secondSent_state:
  "length (timers secondSent) = 2"
  "map (\<lambda>m. (c_role m, c_content m)) (messages secondSent) =
     [(Coach, welcomeContent), (User, ''first''), (User, ''second'')]"
  "map (\<lambda>t. c_content (t_userMsg t)) (timers secondSent) = [''first'', ''second'']"
  by (simp_all add: secondSent_def firstSent_def handleSend_def setInput_def
      initialDashboard_def Let_def processCoachResponse_def trim_first_second
      welcomeMessage_def)

section \<open>Deleting a session in the dashboard\<close>

lemma deleteSession_dashboard_other:
  "currentSessionId st \<noteq> sid \<Longrightarrow>
     deleteSession_dashboard st now timeString sid =
       st\<lparr>sessions := filter (\<lambda>s. cs_id s \<noteq> sid) (sessions st)\<rparr>"
  by (simp add: deleteSession_dashboard_def)

lemma find_first_remaining:
  assumes "filter (\<lambda>s. cs_id s \<noteq> sid) rows = first # others"
  shows "\<exists>s. find (\<lambda>s. cs_id s = cs_id first) rows = Some s \<and> s \<in> set rows
             \<and> cs_id s = cs_id first"
proof -
  have "first \<in> set (filter (\<lambda>s. cs_id s \<noteq> sid) rows)" by (simp add: assms)
  then have "first \<in> set rows" by simp
  then obtain s where "find (\<lambda>s. cs_id s = cs_id first) rows = Some s"
    by (cases "find (\<lambda>s. cs_id s = cs_id first) rows") (auto simp: find_None_iff)
  then show ?thesis by (auto simp: find_Some_iff)
qed

lemma deleteSession_dashboard_remaining:
  assumes "currentSessionId st = sid"
      and "filter (\<lambda>s. cs_id s \<noteq> sid) (sessions st) = first # others"
  shows "currentSessionId (deleteSession_dashboard st now timeString sid) = cs_id first"
    and "sessions (deleteSession_dashboard st now timeString sid) = first # others"
    and "\<exists>s \<in> set (sessions st). cs_id s = cs_id first
           \<and> messages (deleteSession_dashboard st now timeString sid) = cs_messages s"
proof -
  from find_first_remaining[OF assms(2)] obtain s where
    s: "find (\<lambda>s. cs_id s = cs_id first) (sessions st) = Some s" "s \<in> set (sessions st)"
       "cs_id s = cs_id first"
    by blast
  have d: "deleteSession_dashboard st now timeString sid =
      st\<lparr>sessions := first # others, currentSessionId := cs_id first,
         messages := cs_messages s, uploadedImage := None\<rparr>"
    using assms s(1) by (simp add: deleteSession_dashboard_def switchSession_def)
  show "currentSessionId (deleteSession_dashboard st now timeString sid) = cs_id first"
    "sessions (deleteSession_dashboard st now timeString sid) = first # others"
    by (simp_all add: d)
  show "\<exists>s \<in> set (sessions st). cs_id s = cs_id first
           \<and> messages (deleteSession_dashboard st now timeString sid) = cs_messages s"
    using s(2,3) by (auto simp: d)
qed

lemma first_remaining_is_newest:
  assumes "sorted (rev (map cs_createdAt rows))"
      and "filter (\<lambda>s. cs_id s \<noteq> sid) rows = first # others"
  shows "\<forall>s \<in> set (first # others). cs_createdAt s \<le> cs_createdAt first"
proof -
  have "sorted_wrt (\<lambda>a b. cs_createdAt b \<le> cs_createdAt a) rows"
    using assms(1) by (simp add: sorted_wrt_rev sorted_wrt_map flip: rev_map)
  then have "sorted_wrt (\<lambda>a b. cs_createdAt b \<le> cs_createdAt a)
      (filter (\<lambda>s. cs_id s \<noteq> sid) rows)"
    by (rule sorted_wrt_filter)
  then show ?thesis unfolding assms(2) by auto
qed

lemma deleteSession_dashboard_none_remain:
  assumes "currentSessionId st = sid"
      and "filter (\<lambda>s. cs_id s \<noteq> sid) (sessions st) = []"
  shows "currentSessionId (deleteSession_dashboard st now timeString sid) = toString now"
    and "\<exists>fresh. sessions (deleteSession_dashboard st now timeString sid) = fresh # sessions st
           \<and> cs_id fresh = toString now \<and> cs_createdAt fresh = now
           \<and> messages (deleteSession_dashboard st now timeString sid) = cs_messages fresh"
  using assms
  by (simp_all add: deleteSession_dashboard_def createNewSession_def Let_def)

lemma saveCurrentSession_keeps_active:
  "currentSessionId (saveCurrentSession st) = currentSessionId st"
  "messages (saveCurrentSession st) = messages st"
  "map cs_id (sessions (saveCurrentSession st)) = map cs_id (sessions st)"
  by (simp_all add: saveCurrentSession_def comp_def)

section \<open>Deleting a session in the dashboard that calls the server\<close>

lemma deleteSessionMutation_onSuccess_Cons:
  "deleteSessionMutation_onSuccess (first # others) current = s_id first"
  by (simp add: deleteSessionMutation_onSuccess_def)

section \<open>Results\<close>

text \<open>
  A second send 500 ms after the first, while the typing indicator is on: it is accepted,
  two replies are outstanding at once, both user messages stand before both coach
  messages, and the indicator goes off when the first reply arrives although the second
  is still outstanding.
\<close>

theorem second_send_while_typing_counterexample:
  "isTyping firstSent \<and> length (timers firstSent) = 1
   \<and> secondSent = handleSend (setInput firstSent ''second'') 1500
   \<and> secondSent \<noteq> setInput firstSent ''second''
   \<and> length (timers secondSent) = 2
   \<and> map c_role (messages secondSent) = [Coach, User, User]
   \<and> map c_role (messages (timerFires (timerFires secondSent 2200) 2700)) =
       [Coach, User, User, Coach, Coach]
   \<and> \<not> isTyping (timerFires secondSent 2200)
   \<and> length (timers (timerFires secondSent 2200)) = 1"
proof -
  have ne: "secondSent \<noteq> setInput firstSent ''second''"
  proof
    assume "secondSent = setInput firstSent ''second''"
    then have "length (timers secondSent) = length (timers (setInput firstSent ''second''))"
      by simp
    then show False by (simp add: secondSent_state setInput_def firstSent_state)
  qed
  obtain t1 t2 where ts: "timers secondSent = [t1, t2]"
    using secondSent_state(1) by (auto simp: length_Suc_conv numeral_2_eq_2)
  have roles: "map c_role (messages secondSent) = [Coach, User, User]"
    using secondSent_state(2) by (auto simp: map_eq_Cons_conv)
  have f1: "messages (timerFires secondSent 2200) = messages secondSent @ [coachMsg t1 2200]"
    "timers (timerFires secondSent 2200) = [t2]" "\<not> isTyping (timerFires secondSent 2200)"
    using timerFires_Cons[OF ts] by simp_all
  have f2: "messages (timerFires (timerFires secondSent 2200) 2700) =
      messages secondSent @ [coachMsg t1 2200, coachMsg t2 2700]"
    using timerFires_Cons(1)[OF f1(2), of 2700] f1(1) by simp
  show ?thesis
    using firstSent_state(1,2) ne secondSent_state(1) roles f1 f2
    by (simp add: secondSent_def coachMsg_fields)
qed

text \<open>
  C1 (as amended). \<open>handleSend\<close> never reads \<open>isTyping\<close>: with a non-blank input it does
  the same whether or not a reply is pending. It appends the user message at once and
  schedules one more reply, so the number of outstanding replies grows by one each
  time. The outstanding replies arrive one per timer in the order in which they were
  scheduled, each as one coach message at the end of the list.
\<close>

theorem handleSend_never_reads_isTyping:
  "trim (input st) \<noteq> [] \<Longrightarrow>
     handleSend (st\<lparr>isTyping := True\<rparr>) now = handleSend st now
     \<and> (\<exists>u t. messages (handleSend st now) = messages st @ [u]
            \<and> c_role u = User \<and> c_content u = input st
            \<and> timers (handleSend st now) = timers st @ [t] \<and> t_userMsg t = u)
     \<and> length (timers (handleSend st now)) = Suc (length (timers st))
     \<and> (\<forall>nows. length nows = length (timers (handleSend st now)) \<longrightarrow>
           messages (foldl timerFires (handleSend st now) nows) =
             messages (handleSend st now) @ map2 coachMsg (timers (handleSend st now)) nows
           \<and> timers (foldl timerFires (handleSend st now) nows) = [])"
proof (intro conjI allI impI)
  assume a: "trim (input st) \<noteq> []"
  show "handleSend (st\<lparr>isTyping := True\<rparr>) now = handleSend st now"
    using a by (rule handleSend_isTyping)
  from handleSend_accepted[OF a, of now]
  show "\<exists>u t. messages (handleSend st now) = messages st @ [u]
            \<and> c_role u = User \<and> c_content u = input st
            \<and> timers (handleSend st now) = timers st @ [t] \<and> t_userMsg t = u"
    by (elim exE conjE) (intro exI conjI, assumption+, simp)
  from handleSend_accepted[OF a, of now]
  show "length (timers (handleSend st now)) = Suc (length (timers st))"
    by auto
next
  fix nows :: "nat list"
  assume "length nows = length (timers (handleSend st now))"
  from fireAll_messages[OF this]
  show "messages (foldl timerFires (handleSend st now) nows) =
             messages (handleSend st now) @ map2 coachMsg (timers (handleSend st now)) nows"
    "timers (foldl timerFires (handleSend st now) nows) = []"
    by simp_all
qed

theorem handleSend_never_reads_isTyping_witness:
  "isTyping (setInput firstSent ''second'')
   \<and> length (timers (handleSend (setInput firstSent ''second'') 1500)) = 2
   \<and> map (\<lambda>m. (c_role m, c_content m))
        (messages (foldl timerFires (handleSend (setInput firstSent ''second'') 1500)
                     [2200, 2700])) =
       [(Coach, welcomeContent), (User, ''first''), (User, ''second''),
        (Coach, FALLBACK_READ), (Coach, FALLBACK_READ)]"
proof -
  let ?st = "setInput firstSent ''second''"
  have a: "trim (input ?st) \<noteq> []" by (simp add: setInput_def trim_first_second)
  have ty: "isTyping ?st" "length (timers ?st) = 1"
    using firstSent_state(1,2) by (simp_all add: setInput_def)
  note t = handleSend_never_reads_isTyping[OF a, of 1500]
  from t ty(2) have len: "length (timers (handleSend ?st 1500)) = 2" by simp
  then have len': "length [2200, 2700 :: nat] = length (timers (handleSend ?st 1500))" by simp
  from t len' have m: "messages (foldl timerFires (handleSend ?st 1500) [2200, 2700]) =
      messages (handleSend ?st 1500) @ map2 coachMsg (timers (handleSend ?st 1500)) [2200, 2700]"
    by blast
  obtain t1 t2 where ts: "timers secondSent = [t1, t2]"
    "c_content (t_userMsg t1) = ''first''" "c_content (t_userMsg t2) = ''second''"
    "t_scenario t1 = None" "t_scenario t2 = None"
    by (simp add: secondSent_def firstSent_def handleSend_def setInput_def
      initialDashboard_def Let_def processCoachResponse_def trim_first_second)
  have low: "toLowerCase ''first'' = ''first''" "toLowerCase ''second'' = ''second''"
    by (simp_all add: toLowerCase_eval)
  have c: "c_content (coachMsg t1 2200) = FALLBACK_READ"
    "c_content (coachMsg t2 2700) = FALLBACK_READ"
    by (simp_all add: coachMsg_def ts generateGenericResponse_def Let_def low)
  have "map (\<lambda>m. (c_role m, c_content m)) (messages (foldl timerFires (handleSend ?st 1500)
                     [2200, 2700])) =
       [(Coach, welcomeContent), (User, ''first''), (User, ''second''),
        (Coach, FALLBACK_READ), (Coach, FALLBACK_READ)]"
    unfolding m using secondSent_state(2) ts(1) c
    by (simp add: secondSent_def[symmetric] coachMsg_fields)
  with ty(1) len show ?thesis by blast
qed




text \<open>
  C3. The table has an entry with id "bull_flag". Submitting it to an idle dashboard
  appends the user message tagged with that id and then one coach message of type
  analysis whose content is the entry's \<open>tldrResponse\<close> with mode tldr when Full Review
  is off, and its \<open>fullResponse\<close> with mode full when it is on. The content of a
  scenario reply is read from the entry and the mode alone, so it is the same string
  in every call.
\<close>

theorem bull_flag_reply:
  "\<exists>sc. find (\<lambda>s. sc_id s = ''bull_flag'') SCENARIOS = Some sc
      \<and> (\<forall>st now later. timers st = [] \<longrightarrow>
            (\<exists>u c. messages (timerFires (handleSimulateScenario st now sc) later) =
                      messages st @ [u, c]
               \<and> c_role u = User \<and> c_scenarioId u = Some ''bull_flag''
               \<and> c_role c = Coach \<and> c_type c = Analysis
               \<and> c_content c =
                   (if isFullReview st then sc_fullResponse sc else sc_tldrResponse sc)
               \<and> c_mode c = Some (if isFullReview st then Full else Tldr)))
      \<and> (\<forall>t later. t_scenario t = Some sc \<longrightarrow>
            c_content (coachMsg t later) =
              (if t_isFullReview t then sc_fullResponse sc else sc_tldrResponse sc))"
proof -
  from bull_flag_found obtain sc where
    sc: "find (\<lambda>s. sc_id s = ''bull_flag'') SCENARIOS = Some sc" by blast
  then have i: "sc_id sc = ''bull_flag''" by (auto simp: find_Some_iff)
  show ?thesis
    using sc scenario_reply[of _ _ sc] coachMsg_scenario[of _ sc]
    unfolding i by (intro exI[of _ sc]) blast
qed

theorem bull_flag_reply_witness:
  "map (\<lambda>m. (c_role m, c_type m, c_mode m, c_content m))
     (messages (timerFires (handleSimulateScenario (initialDashboard 0) 1000 (hd SCENARIOS)) 2200)) =
     [(Coach, Text, None, welcomeContent),
      (User, Image, None, ''Analyzing setup: Bull Flag Breakout...''),
      (Coach, Analysis, Some Tldr, bullFlagTldr)]
   \<and> map c_mode
        (messages (timerFires (handleSimulateScenario
           (setIsFullReview (initialDashboard 0) True) 1000 (hd SCENARIOS)) 2200)) =
       [None, None, Some Full]"
proof -
  from bull_flag_reply obtain sc where
    f: "find (\<lambda>s. sc_id s = ''bull_flag'') SCENARIOS = Some sc"
    and r: "\<And>st now later. timers st = [] \<Longrightarrow>
            (\<exists>u c. messages (timerFires (handleSimulateScenario st now sc) later) =
                      messages st @ [u, c]
               \<and> c_role u = User \<and> c_scenarioId u = Some ''bull_flag''
               \<and> c_role c = Coach \<and> c_type c = Analysis
               \<and> c_content c =
                   (if isFullReview st then sc_fullResponse sc else sc_tldrResponse sc)
               \<and> c_mode c = Some (if isFullReview st then Full else Tldr))"
    by blast
  from f bull_flag_found have sc: "sc = hd SCENARIOS" by auto
  have tl: "sc_tldrResponse (hd SCENARIOS) = bullFlagTldr"
    "sc_title (hd SCENARIOS) = ''Bull Flag Breakout''"
    by (simp_all add: SCENARIOS_def bullFlagTldr_def)
  have idle: "timers (initialDashboard 0) = []" "\<not> isFullReview (initialDashboard 0)"
    "timers (setIsFullReview (initialDashboard 0) True) = []"
    "isFullReview (setIsFullReview (initialDashboard 0) True)"
    "map c_mode (messages (setIsFullReview (initialDashboard 0) True)) = [None]"
    by (simp_all add: initialDashboard_def setIsFullReview_def welcomeMessage_def)
  from r[OF idle(1), of 1000 2200] obtain u c where
    m: "messages (timerFires (handleSimulateScenario (initialDashboard 0) 1000 sc) 2200) =
          messages (initialDashboard 0) @ [u, c]"
    and c: "c_role c = Coach" "c_type c = Analysis" "c_content c = sc_tldrResponse sc"
      "c_mode c = Some Tldr"
    using idle(2) by auto
  have u: "(c_role u, c_type u, c_mode u, c_content u) =
      (User, Image, None, ''Analyzing setup: Bull Flag Breakout...'')"
    using m handleSimulateScenario_accepted[of "initialDashboard 0" 1000 sc]
    by (auto simp: timerFires_def handleSimulateScenario_def processCoachResponse_def Let_def
        initialDashboard_def sc tl)
  have 1: "map (\<lambda>m. (c_role m, c_type m, c_mode m, c_content m))
     (messages (timerFires (handleSimulateScenario (initialDashboard 0) 1000 (hd SCENARIOS)) 2200)) =
     [(Coach, Text, None, welcomeContent),
      (User, Image, None, ''Analyzing setup: Bull Flag Breakout...''),
      (Coach, Analysis, Some Tldr, bullFlagTldr)]"
    using m c u unfolding sc tl by (simp add: initialDashboard_def welcomeMessage_def)
  from r[OF idle(3), of 1000 2200] obtain u' c' where
    m': "messages (timerFires (handleSimulateScenario
           (setIsFullReview (initialDashboard 0) True) 1000 sc) 2200) =
          messages (setIsFullReview (initialDashboard 0) True) @ [u', c']"
    and c': "c_mode c' = Some Full"
    using idle(4) by auto
  have "c_mode u' = None"
    using m' by (auto simp: timerFires_def handleSimulateScenario_def processCoachResponse_def
        Let_def initialDashboard_def setIsFullReview_def)
  with m' c' idle(5) have 2: "map c_mode
        (messages (timerFires (handleSimulateScenario
           (setIsFullReview (initialDashboard 0) True) 1000 (hd SCENARIOS)) 2200)) =
       [None, None, Some Full]"
    unfolding sc by simp
  from 1 2 show ?thesis by blast
qed

text \<open>
  C4. The keyword matcher works on the lower-cased content and the first matching rule
  wins, in both variants of the dashboard: a content with "buyer" or "long" gets the
  buyer read; one with "seller" or "short" and neither "buyer" nor "long" gets the seller
  read; a content with none of the keywords of its variant gets the fallback read (the
  dashboard with local sessions has a third rule, "wait" or "patience", between the
  seller rule and the fallback). The mode argument changes nothing, and
  "I think buyers are strong" gets the buyer read.
\<close>

theorem generateGenericResponse_first_match:
  "(let lower = toLowerCase (c_content msg);
        buyer = includes_str lower ''buyer'' \<or> includes_str lower ''long'';
        seller = includes_str lower ''seller'' \<or> includes_str lower ''short'';
        discipline = includes_str lower ''wait'' \<or> includes_str lower ''patience''
    in (buyer \<longrightarrow>
          generateGenericResponse msg fullMode = BUYER_READ
          \<and> generateGenericResponse_remote (c_content msg) fullMode = BUYER_READ_remote)
     \<and> (seller \<and> \<not> buyer \<longrightarrow>
          generateGenericResponse msg fullMode = SELLER_READ
          \<and> generateGenericResponse_remote (c_content msg) fullMode = SELLER_READ_remote)
     \<and> (discipline \<and> \<not> buyer \<and> \<not> seller \<longrightarrow>
          generateGenericResponse msg fullMode = DISCIPLINE_READ)
     \<and> (\<not> buyer \<and> \<not> seller \<and> \<not> discipline \<longrightarrow>
          generateGenericResponse msg fullMode = FALLBACK_READ)
     \<and> (\<not> buyer \<and> \<not> seller \<longrightarrow>
          generateGenericResponse_remote (c_content msg) fullMode = FALLBACK_READ_remote))
   \<and> generateGenericResponse msg True = generateGenericResponse msg False
   \<and> generateGenericResponse_remote content True = generateGenericResponse_remote content False
   \<and> generateGenericResponse (typed ''I think buyers are strong'') fullMode = BUYER_READ
   \<and> generateGenericResponse_remote ''I think buyers are strong'' fullMode = BUYER_READ_remote"
proof -
  have ex: "includes_str ''i think buyers are strong'' ''buyer''" by simp
  show ?thesis
    by (simp add: generateGenericResponse_def generateGenericResponse_remote_def Let_def
        typed_def lower_example ex)
qed

theorem generateGenericResponse_first_match_witness:
  "generateGenericResponse (typed ''Going LONG, sellers gone'') False = BUYER_READ
   \<and> generateGenericResponse_remote ''Going LONG, sellers gone'' True = BUYER_READ_remote
   \<and> generateGenericResponse (typed ''Sellers short it'') True = SELLER_READ
   \<and> generateGenericResponse_remote ''Sellers short it'' False = SELLER_READ_remote
   \<and> generateGenericResponse (typed ''I will wait'') False = DISCIPLINE_READ
   \<and> generateGenericResponse_remote ''I will wait'' False = FALLBACK_READ_remote
   \<and> generateGenericResponse (typed ''What now?'') True = FALLBACK_READ
   \<and> generateGenericResponse_remote ''What now?'' True = FALLBACK_READ_remote
   \<and> BUYER_READ \<noteq> SELLER_READ \<and> SELLER_READ \<noteq> FALLBACK_READ \<and> BUYER_READ \<noteq> FALLBACK_READ"
proof -
  have l1: "toLowerCase ''Going LONG, sellers gone'' = ''going long, sellers gone''"
    and l2: "toLowerCase ''Sellers short it'' = ''sellers short it''"
    and l3: "toLowerCase ''I will wait'' = ''i will wait''"
    and l4: "toLowerCase ''What now?'' = ''what now?''"
    by (simp_all add: toLowerCase_eval)
  have c1: "includes_str ''going long, sellers gone'' ''long''" by simp
  have c2: "includes_str ''sellers short it'' ''seller''"
    "\<not> includes_str ''sellers short it'' ''buyer''" "\<not> includes_str ''sellers short it'' ''long''"
    by simp_all
  have c3: "includes_str ''i will wait'' ''wait''"
    "\<not> includes_str ''i will wait'' ''buyer''" "\<not> includes_str ''i will wait'' ''long''"
    "\<not> includes_str ''i will wait'' ''seller''" "\<not> includes_str ''i will wait'' ''short''"
    by simp_all
  have c4: "\<not> includes_str ''what now?'' ''buyer''" "\<not> includes_str ''what now?'' ''long''"
    "\<not> includes_str ''what now?'' ''seller''" "\<not> includes_str ''what now?'' ''short''"
    "\<not> includes_str ''what now?'' ''wait''" "\<not> includes_str ''what now?'' ''patience''"
    by simp_all
  note t = generateGenericResponse_first_match
  from t[where msg = "typed ''Going LONG, sellers gone''" and fullMode = False, THEN conjunct1] c1
  have 1: "generateGenericResponse (typed ''Going LONG, sellers gone'') False = BUYER_READ"
    by (simp add: Let_def typed_def l1)
  from t[where msg = "typed ''Going LONG, sellers gone''" and fullMode = True, THEN conjunct1] c1
  have 2: "generateGenericResponse_remote ''Going LONG, sellers gone'' True = BUYER_READ_remote"
    by (simp add: Let_def typed_def l1)
  from t[where msg = "typed ''Sellers short it''" and fullMode = True, THEN conjunct1] c2
  have 3: "generateGenericResponse (typed ''Sellers short it'') True = SELLER_READ"
    by (simp add: Let_def typed_def l2)
  from t[where msg = "typed ''Sellers short it''" and fullMode = False, THEN conjunct1] c2
  have 4: "generateGenericResponse_remote ''Sellers short it'' False = SELLER_READ_remote"
    by (simp add: Let_def typed_def l2)
  from t[where msg = "typed ''I will wait''" and fullMode = False, THEN conjunct1] c3
  have 5: "generateGenericResponse (typed ''I will wait'') False = DISCIPLINE_READ"
    "generateGenericResponse_remote ''I will wait'' False = FALLBACK_READ_remote"
    by (simp_all add: Let_def typed_def l3)
  from t[where msg = "typed ''What now?''" and fullMode = True, THEN conjunct1] c4
  have 6: "generateGenericResponse (typed ''What now?'') True = FALLBACK_READ"
    "generateGenericResponse_remote ''What now?'' True = FALLBACK_READ_remote"
    by (simp_all add: Let_def typed_def l4)
  from 1 2 3 4 5 6 reads_distinct show ?thesis by blast
qed

text \<open>
  C5. In every database state that the storage methods can reach, each stored message
  references a stored session. Deleting a session of such a state leaves no session
  with that id and no message that references it, keeps the state referentially intact,
  and listing the messages of that id afterwards gives the empty list (also through
  \<open>GET /api/sessions/:sessionId/messages\<close>).
\<close>

theorem deleteSession_cascades:
  "fk_ok (run cs)
   \<and> (\<forall>db'. deleteSession (run cs) S = Inr db' \<longrightarrow>
         S \<notin> set (map s_id (tbl_sessions db'))
         \<and> (\<forall>m \<in> set (tbl_messages db'). m_sessionId m \<noteq> S)
         \<and> fk_ok db'
         \<and> (engine_ok eng \<longrightarrow>
              getMessagesBySession eng db' S = Inr []
              \<and> GET_messages eng db' S = \<lparr>status = 200, body = MessageList []\<rparr>))"
proof (intro conjI allI impI)
  show "fk_ok (run cs)" by (rule fk_ok_run)
next
  fix db' assume d: "deleteSession (run cs) S = Inr db'"
  show "S \<notin> set (map s_id (tbl_sessions db'))"
    using deleteSession_result[OF d] by blast
  show c: "\<forall>m \<in> set (tbl_messages db'). m_sessionId m \<noteq> S"
    using deleteSession_cascade[OF fk_ok_run d] .
  show "fk_ok db'" using deleteSession_fk_ok[OF fk_ok_run d] .
  assume "engine_ok eng"
  then have o: "order_by_timestamp (orderMessages eng)" by (simp add: engine_ok_def)
  have on: "online db'" using deleteSession_result[OF d] by blast
  show g: "getMessagesBySession eng db' S = Inr []"
    using getMessagesBySession_none[OF o on c] .
  show "GET_messages eng db' S = \<lparr>status = 200, body = MessageList []\<rparr>"
    by (simp add: GET_messages_def GET_messages_try_def g await_def try_catch_def json_def)
qed

theorem deleteSession_cascades_witness:
  "run oneMessageCommands = oneMessage
   \<and> getMessagesBySession stableEngine oneMessage ''A'' = Inr [helloRow]
   \<and> deleteSession oneMessage ''A'' = Inr onlySessionB
   \<and> getMessagesBySession stableEngine onlySessionB ''A'' = Inr []
   \<and> fk_ok oneMessage \<and> fk_ok onlySessionB"
proof -
  note t = deleteSession_cascades[of oneMessageCommands "''A''" stableEngine,
      unfolded run_oneMessageCommands]
  have before: "getMessagesBySession stableEngine oneMessage ''A'' = Inr [helloRow]"
    by (simp add: getMessagesBySession_def tbl_messages_def oneMessage_def stableEngine_def
        helloRow_def)
  from t deleteSession_oneMessage stableEngine_ok
  have "getMessagesBySession stableEngine onlySessionB ''A'' = Inr []" "fk_ok oneMessage"
    "fk_ok onlySessionB"
    by blast+
  with before run_oneMessageCommands deleteSession_oneMessage show ?thesis by blast
qed

text \<open>
  A freed slot is reused. A message of session A is stored, session B is deleted with
  its message, the table is vacuumed, and a second message of session A arrives at the
  timestamp of the first: it takes the freed slot in front of the first, and the listing
  returns it first.
\<close>

theorem getMessagesBySession_ties_counterexample:
  "engine_ok stableEngine
   \<and> tbl_messages (run (butlast reuseHistory)) = [helloRow]
   \<and> last reuseHistory = CreateMessage ''m2'' 30 againData
   \<and> tbl_messages (run reuseHistory) = [againRow, helloRow]
   \<and> m_timestamp helloRow = m_timestamp againRow
   \<and> getMessagesBySession stableEngine (run reuseHistory) ''A'' = Inr [againRow, helloRow]
   \<and> [againRow, helloRow] \<noteq> [helloRow, againRow]"
  by (simp add: stableEngine_ok run_reuseHistory getMessagesBySession_def tbl_messages_def)
     (simp add: reuseHistory_def stableEngine_def helloRow_def againRow_def)

text \<open>
  C6 (as amended). The query names \<open>messages.timestamp\<close> as its only sort key. On a
  reachable database it returns a list; whatever list it returns is sorted
  non-decreasingly by timestamp and holds exactly the stored messages of that session,
  each as often as it is stored. The order among equal timestamps is left to the engine;
  an engine that keeps the scan order returns them in insertion order only while no
  freed slot of the table has been reused.
\<close>

theorem getMessagesBySession_sorted:
  "engine_ok eng \<Longrightarrow>
     (online db \<longrightarrow> (\<exists>out. getMessagesBySession eng db S = Inr out))
     \<and> (\<forall>out. getMessagesBySession eng db S = Inr out \<longrightarrow>
           sorted (map m_timestamp out)
           \<and> mset out = mset (filter (\<lambda>m. m_sessionId m = S) (tbl_messages db))
           \<and> set out = {m \<in> set (tbl_messages db). m_sessionId m = S})"
proof (intro conjI allI impI)
  assume "online db"
  then show "\<exists>out. getMessagesBySession eng db S = Inr out"
    by (rule getMessagesBySession_returns)
next
  fix out
  assume "engine_ok eng" and g: "getMessagesBySession eng db S = Inr out"
  then have o: "order_by_timestamp (orderMessages eng)" by (simp add: engine_ok_def)
  show "sorted (map m_timestamp out)"
    using getMessagesBySession_contents(1)[OF o g] .
  show m: "mset out = mset (filter (\<lambda>m. m_sessionId m = S) (tbl_messages db))"
    using getMessagesBySession_contents(2)[OF o g] .
  have "set out = set (filter (\<lambda>m. m_sessionId m = S) (tbl_messages db))"
    using m by (rule mset_eq_setD)
  then show "set out = {m \<in> set (tbl_messages db). m_sessionId m = S}" by simp
qed

theorem getMessagesBySession_sorted_witness:
  "engine_ok stableEngine
   \<and> getMessagesBySession stableEngine unorderedTable ''A'' = Inr [helloRow, laterRow]
   \<and> sorted (map m_timestamp [helloRow, laterRow])
   \<and> set [helloRow, laterRow] = {m \<in> set (tbl_messages unorderedTable). m_sessionId m = ''A''}"
proof -
  have g: "getMessagesBySession stableEngine unorderedTable ''A'' = Inr [helloRow, laterRow]"
    by (simp add: getMessagesBySession_def tbl_messages_def unorderedTable_def stableEngine_def
        helloRow_def laterRow_def otherRow_def)
  from getMessagesBySession_sorted[OF stableEngine_ok, of unorderedTable "''A''"] g
  have "sorted (map m_timestamp [helloRow, laterRow])"
    "set [helloRow, laterRow] = {m \<in> set (tbl_messages unorderedTable). m_sessionId m = ''A''}"
    by blast+
  with g stableEngine_ok show ?thesis by blast
qed

text \<open>
  C7. In the dashboard that calls the server, \<open>onSuccess\<close> of the delete mutation makes
  the first session of the list it holds the active one, whichever session was deleted
  and whichever was active. With sessions B, A, C (newest first) and A active, deleting C
  makes B active, with the list as it was before the deletion and with the list as it is
  after it. Deleting the active session B leaves the deleted id B active although A
  remains, and after deleting the only session the deleted id stays active and no
  session is created. The dashboard with local sessions keeps the active session when
  another one is deleted, switches to the first remaining session when the active one is
  deleted, and creates a session when none remains (the lemmas on
  \<open>deleteSession_dashboard\<close> above).
\<close>

theorem deleteSessionMutation_selects_first_cached:
  "getAllSessions stableEngine threeSessions = Inr [sessionB, sessionA, sessionC]
   \<and> deleteSessionMutation threeSessions [sessionB, sessionA, sessionC] ''A'' ''C'' =
       (twoSessions, ''B'')
   \<and> deleteSessionMutation threeSessions [sessionB, sessionA] ''A'' ''C'' =
       (twoSessions, ''B'')
   \<and> deleteSessionMutation twoSessions [sessionB, sessionA] ''B'' ''B'' =
       (twoSessions\<lparr>tbl_sessions := [sessionA]\<rparr>, ''B'')
   \<and> deleteSessionMutation onlySessionB [sessionB] ''B'' ''B'' =
       (onlySessionB\<lparr>tbl_sessions := []\<rparr>, ''B'')"
  by (simp add: getAllSessions_def stableEngine_def sessionA_def sessionB_def sessionC_def
      threeSessions_def twoSessions_def onlySessionB_def deleteSessionMutation_def
      deleteSessionMutation_onSuccess_def DELETE_session_def DELETE_session_try_def
      deleteSession_def expire_def await_def try_catch_def json_def ok_def Let_def)




text \<open>
  Deleting an id that no session has: the lookup route answers 404 for it, the delete
  route answers success.
\<close>

theorem DELETE_session_absent_counterexample:
  "online emptyDatabase
   \<and> getSession emptyDatabase ''ghost'' = Inr None
   \<and> GET_session emptyDatabase ''ghost'' = \<lparr>status = 404, body = ErrorBody ''Session not found''\<rparr>
   \<and> DELETE_session emptyDatabase ''ghost'' = (\<lparr>status = 200, body = SuccessTrue\<rparr>, emptyDatabase)"
  by (simp add: emptyDatabase_def getSession_def GET_session_def GET_session_try_def
      DELETE_session_def DELETE_session_try_def deleteSession_def expire_def await_def
      try_catch_def json_def status_json_def)

text \<open>
  C9 (as amended). \<open>DELETE /api/sessions/:id\<close> on a reachable database answers
  \<open>{success: true}\<close> whether or not a session with that id was stored: afterwards no
  session has the id, no message of a referentially intact database references it, and
  when no session had the id the database is unchanged. When the query rejects, the
  answer is 500 and the database is unchanged. The answer is never 404.
\<close>

theorem DELETE_session_reports_success:
  "(online db \<longrightarrow>
      fst (DELETE_session db S) = \<lparr>status = 200, body = SuccessTrue\<rparr>
      \<and> deleteSession db S = Inr (snd (DELETE_session db S))
      \<and> S \<notin> set (map s_id (tbl_sessions (snd (DELETE_session db S))))
      \<and> (fk_ok db \<longrightarrow> (\<forall>m \<in> set (tbl_messages (snd (DELETE_session db S))). m_sessionId m \<noteq> S))
      \<and> (S \<notin> set (map s_id (tbl_sessions db)) \<longrightarrow> snd (DELETE_session db S) = db))
   \<and> (\<not> online db \<longrightarrow>
        DELETE_session db S =
          (\<lparr>status = 500, body = ErrorBody ''Failed to delete session''\<rparr>, db))
   \<and> status (fst (DELETE_session db S)) \<noteq> 404"
proof (intro conjI impI)
  assume on: "online db"
  from DELETE_session_online[OF on, of S] obtain db' where
    d: "deleteSession db S = Inr db'" and r: "DELETE_session db S = (\<lparr>status = 200, body = SuccessTrue\<rparr>, db')"
    by auto
  show "fst (DELETE_session db S) = \<lparr>status = 200, body = SuccessTrue\<rparr>" by (simp add: r)
  show "deleteSession db S = Inr (snd (DELETE_session db S))" by (simp add: r d)
  show "S \<notin> set (map s_id (tbl_sessions (snd (DELETE_session db S))))"
    using deleteSession_result[OF d] by (auto simp: r)
  { assume "fk_ok db"
    then show "\<forall>m \<in> set (tbl_messages (snd (DELETE_session db S))). m_sessionId m \<noteq> S"
      using deleteSession_cascade[OF _ d] by (simp add: r) }
  { assume "S \<notin> set (map s_id (tbl_sessions db))"
    then have "deleteSession db S = Inr db" by (rule deleteSession_absent[OF on])
    with d have "db' = db" by simp
    then show "snd (DELETE_session db S) = db" by (simp add: r) }
next
  assume "\<not> online db"
  then show "DELETE_session db S =
          (\<lparr>status = 500, body = ErrorBody ''Failed to delete session''\<rparr>, db)"
    by (rule DELETE_session_offline)
next
  show "status (fst (DELETE_session db S)) \<noteq> 404"
    using DELETE_session_online[of db S] DELETE_session_offline[of db S]
    by (cases "online db") auto
qed

theorem DELETE_session_reports_success_witness:
  "DELETE_session oneMessage ''A'' = (\<lparr>status = 200, body = SuccessTrue\<rparr>, onlySessionB)
   \<and> DELETE_session onlySessionB ''A'' = (\<lparr>status = 200, body = SuccessTrue\<rparr>, onlySessionB)
   \<and> DELETE_session (onlySessionB\<lparr>online := False\<rparr>) ''A'' =
       (\<lparr>status = 500, body = ErrorBody ''Failed to delete session''\<rparr>,
        onlySessionB\<lparr>online := False\<rparr>)"
proof -
  have on: "online oneMessage" "online onlySessionB" "\<not> online (onlySessionB\<lparr>online := False\<rparr>)"
    by (simp_all add: oneMessage_def onlySessionB_def)
  have absent: "''A'' \<notin> set (map s_id (tbl_sessions onlySessionB))"
    by (simp add: onlySessionB_def sessionB_def)
  from DELETE_session_reports_success[of oneMessage "''A''"] on(1) deleteSession_oneMessage
  have 1: "DELETE_session oneMessage ''A'' = (\<lparr>status = 200, body = SuccessTrue\<rparr>, onlySessionB)"
    by (metis prod.collapse sum.inject(2))
  from DELETE_session_reports_success[of onlySessionB "''A''"] on(2) absent
  have 2: "DELETE_session onlySessionB ''A'' = (\<lparr>status = 200, body = SuccessTrue\<rparr>, onlySessionB)"
    by (metis prod.collapse)
  from DELETE_session_reports_success[of "onlySessionB\<lparr>online := False\<rparr>" "''A''"] on(3)
  have 3: "DELETE_session (onlySessionB\<lparr>online := False\<rparr>) ''A'' =
       (\<lparr>status = 500, body = ErrorBody ''Failed to delete session''\<rparr>,
        onlySessionB\<lparr>online := False\<rparr>)"
    by blast
  from 1 2 3 show ?thesis by blast
qed

text \<open>
  C10. \<open>POST /api/sessions/:sessionId/messages\<close> treats an empty content (and an empty
  role or type) as a missing field: it answers 400 with an error body and leaves the
  database as it was. Whatever request the API handles, a message that was not stored
  before has a content that is not empty. The storage method itself stores an empty
  content when it is handed one.
\<close>

theorem POST_messages_rejects_empty_fields:
  "(b_content b = Some [] \<or> b_role b = Some [] \<or> b_type b = Some [] \<longrightarrow>
      POST_messages db newId now sid b =
        (\<lparr>status = 400, body = ErrorBody ''Missing required fields''\<rparr>, db))
   \<and> (\<forall>m \<in> set (tbl_messages (snd (handle degrading eng out db req))).
         m \<in> set (tbl_messages db) \<or> m_content m \<noteq> [])
   \<and> (online db \<and> newId \<notin> set (map m_id (tbl_messages db))
        \<and> im_sessionId data \<in> set (map s_id (tbl_sessions db)) \<longrightarrow>
        (\<exists>row db'. createMessage db newId now (data\<lparr>im_content := []\<rparr>) = Inr (row, db')
           \<and> m_content row = []))"
proof (intro conjI impI ballI)
  assume "b_content b = Some [] \<or> b_role b = Some [] \<or> b_type b = Some []"
  then have "falsy (b_role b) \<or> falsy (b_content b) \<or> falsy (b_type b)"
    by (auto simp: falsy_def)
  then show "POST_messages db newId now sid b =
        (\<lparr>status = 400, body = ErrorBody ''Missing required fields''\<rparr>, db)"
    by (rule POST_messages_400)
next
  fix m assume "m \<in> set (tbl_messages (snd (handle degrading eng out db req)))"
  then show "m \<in> set (tbl_messages db) \<or> m_content m \<noteq> []"
    using handle_new_message by blast
next
  assume "online db \<and> newId \<notin> set (map m_id (tbl_messages db))
        \<and> im_sessionId data \<in> set (map s_id (tbl_sessions db))"
  then show "\<exists>row db'. createMessage db newId now (data\<lparr>im_content := []\<rparr>) = Inr (row, db')
           \<and> m_content row = []"
    using createMessage_accepts_empty_content[of db newId data now] by blast
qed

theorem POST_messages_rejects_empty_fields_witness:
  "POST_messages twoSessions ''m1'' 30 ''A'' emptyContentBody =
     (\<lparr>status = 400, body = ErrorBody ''Missing required fields''\<rparr>, twoSessions)
   \<and> tbl_messages (snd (handle True stableEngine quietOutside twoSessions
                          (PostMessages ''A'' helloBody))) = [helloRow]
   \<and> m_content helloRow \<noteq> []
   \<and> (\<exists>row db'. createMessage twoSessions ''m1'' 30 (textData\<lparr>im_content := []\<rparr>) =
                   Inr (row, db') \<and> m_content row = [])"
proof -
  have c: "b_content emptyContentBody = Some []"
    by (simp add: emptyContentBody_def)
  have s: "online twoSessions \<and> ''m1'' \<notin> set (map m_id (tbl_messages twoSessions))
        \<and> im_sessionId textData \<in> set (map s_id (tbl_sessions twoSessions))"
    by (simp add: twoSessions_def tbl_messages_def textData_def sessionA_def sessionB_def)
  note t = POST_messages_rejects_empty_fields[of emptyContentBody twoSessions "''m1''" 30
      "''A''" True stableEngine quietOutside "PostMessages ''A'' helloBody" textData]
  have stored: "tbl_messages (snd (handle True stableEngine quietOutside twoSessions
                          (PostMessages ''A'' helloBody))) = [helloRow]"
    by (simp add: handle_def POST_messages_def POST_messages_try_def createMessage_def
        try_catch_def await_def falsy_def orNull_def json_def quietOutside_def Let_def
        tbl_messages_def twoSessions_def helloBody_def helloRow_def sessionA_def sessionB_def)
  from t c have 1: "POST_messages twoSessions ''m1'' 30 ''A'' emptyContentBody =
     (\<lparr>status = 400, body = ErrorBody ''Missing required fields''\<rparr>, twoSessions)"
    by blast
  from t stored have 2: "m_content helloRow \<noteq> []"
    by (simp add: twoSessions_def tbl_messages_def)
  from t s have 3: "\<exists>row db'. createMessage twoSessions ''m1'' 30
        (textData\<lparr>im_content := []\<rparr>) = Inr (row, db') \<and> m_content row = []"
    by blast
  from 1 stored 2 3 show ?thesis by blast
qed

end
